theory Spec2Isabelle
  imports Complex_Main
begin

section \<open>The JavaScript values the statement exporter computes with\<close>

text \<open>
  The exporter is TypeScript. Its strings are modelled as \<open>string\<close> (code units
  below 256), its finite numbers as exact \<open>real\<close>s (rounding of doubles is not
  modelled), and an exception as the \<open>Inl\<close> of a sum.
\<close>

datatype js_error = TypeError | SyntaxError | Error string

text \<open>A number that may be \<open>NaN\<close> or infinite (the result of \<open>parseFloat\<close>,
  of a comparator).\<close>

datatype jsnum = NaN | Num real | PosInfinity | NegInfinity

fun isNaN :: "jsnum \<Rightarrow> bool" where
  "isNaN NaN = True"
| "isNaN _ = False"

fun Math_abs :: "jsnum \<Rightarrow> jsnum" where
  "Math_abs NaN = NaN"
| "Math_abs (Num x) = Num \<bar>x\<bar>"
| "Math_abs PosInfinity = PosInfinity"
| "Math_abs NegInfinity = PosInfinity"

text \<open>\<open>x < 0\<close>, \<open>x > 0\<close> and \<open>x !== 0\<close> on numbers; a comparison with \<open>NaN\<close> is false.\<close>

fun js_lt0 :: "jsnum \<Rightarrow> bool" where
  "js_lt0 (Num x) = (x < 0)"
| "js_lt0 NegInfinity = True"
| "js_lt0 _ = False"

fun js_gt0 :: "jsnum \<Rightarrow> bool" where
  "js_gt0 (Num x) = (x > 0)"
| "js_gt0 PosInfinity = True"
| "js_gt0 _ = False"

fun js_ne0 :: "jsnum \<Rightarrow> bool" where
  "js_ne0 (Num x) = (x \<noteq> 0)"
| "js_ne0 _ = True"

subsection \<open>Characters and strings\<close>

definition is_digit :: "char \<Rightarrow> bool" where
  "is_digit c = (c \<in> set ''0123456789'')"

definition is_upper :: "char \<Rightarrow> bool" where
  "is_upper c = (c \<in> set ''ABCDEFGHIJKLMNOPQRSTUVWXYZ'')"

text \<open>White space and line terminators (\<open>\s\<close>, \<open>trim\<close>): tab, LF, VT, FF, CR, space,
  no-break space.\<close>

definition is_space :: "char \<Rightarrow> bool" where
  "is_space c = (of_char c \<in> {9, 10, 11, 12, 13, 32, 160 :: nat})"

definition digit_val :: "char \<Rightarrow> nat" where
  "digit_val c = of_char c - 48"

definition digit_char :: "nat \<Rightarrow> char" where
  "digit_char n = ''0123456789'' ! (n mod 10)"

definition digits_val :: "string \<Rightarrow> nat" where
  "digits_val s = foldl (\<lambda>a c. 10 * a + digit_val c) 0 s"

definition toLowerCase_char :: "char \<Rightarrow> char" where
  "toLowerCase_char c =
     (let n = of_char c :: nat
      in if (65 \<le> n \<and> n \<le> 90) \<or> (192 \<le> n \<and> n \<le> 222 \<and> n \<noteq> 215)
         then char_of (n + 32) else c)"

definition toLowerCase :: "string \<Rightarrow> string" where
  "toLowerCase s = map toLowerCase_char s"

fun startsWith :: "string \<Rightarrow> string \<Rightarrow> bool" where
  "startsWith s [] = True"
| "startsWith [] (p # ps) = False"
| "startsWith (c # cs) (p # ps) = (c = p \<and> startsWith cs ps)"

text \<open>\<open>s.includes(sub)\<close>.\<close>

fun js_includes :: "string \<Rightarrow> string \<Rightarrow> bool" where
  "js_includes [] sub = (sub = [])"
| "js_includes (c # cs) sub = (startsWith (c # cs) sub \<or> js_includes cs sub)"

definition trim :: "string \<Rightarrow> string" where
  "trim s = rev (dropWhile is_space (rev (dropWhile is_space s)))"

text \<open>\<open>s.split(sep)\<close> for a separator that is one character of a class
  (\<open>split("\n")\<close>, \<open>split(/[\/\-]/)\<close>).\<close>

fun split_on :: "(char \<Rightarrow> bool) \<Rightarrow> string \<Rightarrow> string list" where
  "split_on p [] = [[]]"
| "split_on p (c # cs) =
     (if p c then [] # split_on p cs
      else (case split_on p cs of [] \<Rightarrow> [[c]] | x # xs \<Rightarrow> (c # x) # xs))"

text \<open>\<open>s.replace(pat, rep)\<close> for a string pattern: the first occurrence only.\<close>

fun replace_first :: "string \<Rightarrow> string \<Rightarrow> string \<Rightarrow> string" where
  "replace_first [] pat rep = (if pat = [] then rep else [])"
| "replace_first (c # cs) pat rep =
     (if startsWith (c # cs) pat then rep @ drop (length pat) (c # cs)
      else c # replace_first cs pat rep)"

text \<open>An array read \<open>a[i]\<close>: \<open>undefined\<close> (\<open>None\<close>) out of range.\<close>

definition at_index :: "'a list \<Rightarrow> nat \<Rightarrow> 'a option" where
  "at_index xs i = (if i < length xs then Some (xs ! i) else None)"

subsection \<open>Regular expressions\<close>

text \<open>
  The patterns of the source are sequences of repeated character classes and optional
  groups. \<open>Rep greedy cls lo hi\<close> is the class \<open>cls\<close> repeated \<open>lo\<close> to \<open>hi\<close> times
  (\<open>None\<close>: unbounded), greedy or lazy. \<open>rx_lens r s\<close> lists the lengths of the
  prefixes of \<open>s\<close> that \<open>r\<close> matches, in the order backtracking tries them; the match
  at a position is the first.
\<close>

datatype rx = Rep bool "char \<Rightarrow> bool" nat "nat option" | Seq rx rx | Opt rx

definition rep_counts :: "bool \<Rightarrow> nat \<Rightarrow> nat \<Rightarrow> nat list" where
  "rep_counts greedy lo k = (if greedy then rev [lo..<Suc k] else [lo..<Suc k])"

fun rx_lens :: "rx \<Rightarrow> string \<Rightarrow> nat list" where
  "rx_lens (Rep greedy cls lo hi) s =
     (let avail = length (takeWhile cls s);
          k = (case hi of None \<Rightarrow> avail | Some h \<Rightarrow> min h avail)
      in rep_counts greedy lo k)"
| "rx_lens (Seq a b) s =
     concat (map (\<lambda>n. map (\<lambda>m. n + m) (rx_lens b (drop n s))) (rx_lens a s))"
| "rx_lens (Opt a) s = rx_lens a s @ [0]"

text \<open>\<open>r.exec(s)\<close> without the \<open>g\<close> flag: index and length of the leftmost match.\<close>

fun rx_exec :: "rx \<Rightarrow> string \<Rightarrow> (nat \<times> nat) option" where
  "rx_exec r [] = (case rx_lens r [] of [] \<Rightarrow> None | n # _ \<Rightarrow> Some (0, n))"
| "rx_exec r (c # cs) =
     (case rx_lens r (c # cs) of
        n # _ \<Rightarrow> Some (0, n)
      | [] \<Rightarrow> (case rx_exec r cs of None \<Rightarrow> None | Some (i, n) \<Rightarrow> Some (Suc i, n)))"

definition rx_test :: "rx \<Rightarrow> string \<Rightarrow> bool" where
  "rx_test r s = (rx_exec r s \<noteq> None)"

text \<open>\<open>s.match(r)\<close> without the \<open>g\<close> flag: the matched text, \<open>null\<close> (\<open>None\<close>) when
  there is none.\<close>

definition rx_match :: "rx \<Rightarrow> string \<Rightarrow> string option" where
  "rx_match r s = (case rx_exec r s of None \<Rightarrow> None | Some (i, n) \<Rightarrow> Some (take n (drop i s)))"

text \<open>The successive matches of a pattern with the \<open>g\<close> flag: after a match the search
  resumes at its end (one further after an empty match).\<close>

fun rx_match_all :: "rx \<Rightarrow> string \<Rightarrow> string list" where
  "rx_match_all r [] = (case rx_lens r [] of [] \<Rightarrow> [] | n # _ \<Rightarrow> [[]])"
| "rx_match_all r (c # cs) =
     (case rx_lens r (c # cs) of
        [] \<Rightarrow> rx_match_all r cs
      | 0 # _ \<Rightarrow> [] # rx_match_all r cs
      | Suc n # _ \<Rightarrow> take (Suc n) (c # cs) # rx_match_all r (drop n cs))"

text \<open>\<open>s.match(r)\<close> with the \<open>g\<close> flag: the array of the matched texts (no capture
  groups), \<open>null\<close> when there is no match.\<close>

definition rx_match_g :: "rx \<Rightarrow> string \<Rightarrow> string list option" where
  "rx_match_g r s = (case rx_match_all r s of [] \<Rightarrow> None | m # ms \<Rightarrow> Some (m # ms))"

text \<open>\<open>s.replace(r, rep)\<close> with the \<open>g\<close> flag, for a replacement without \<open>$\<close>.\<close>

fun rx_replace_all :: "rx \<Rightarrow> string \<Rightarrow> string \<Rightarrow> string" where
  "rx_replace_all r rep [] = (case rx_lens r [] of [] \<Rightarrow> [] | n # _ \<Rightarrow> rep)"
| "rx_replace_all r rep (c # cs) =
     (case rx_lens r (c # cs) of
        [] \<Rightarrow> c # rx_replace_all r rep cs
      | 0 # _ \<Rightarrow> rep @ c # rx_replace_all r rep cs
      | Suc n # _ \<Rightarrow> rep @ rx_replace_all r rep (drop n cs))"

text \<open>A class taken exactly once, and helpers to write the patterns as the source does.\<close>

definition rx_one :: "(char \<Rightarrow> bool) \<Rightarrow> rx" where
  "rx_one cls = Rep True cls 1 (Some 1)"

definition rx_plus :: "(char \<Rightarrow> bool) \<Rightarrow> rx" where
  "rx_plus cls = Rep True cls 1 None"

fun seqs :: "rx list \<Rightarrow> rx" where
  "seqs [] = Rep True (\<lambda>c. False) 0 (Some 0)"
| "seqs [r] = r"
| "seqs (r # rs) = Seq r (seqs rs)"

text \<open>\<open>.\<close>: any character but a line terminator.\<close>

definition is_dot :: "char \<Rightarrow> bool" where
  "is_dot c = (of_char c \<notin> {10, 13 :: nat})"

definition is_date_sep :: "char \<Rightarrow> bool" where
  "is_date_sep c = (c \<in> set ''/-'')"

text \<open>\<open>BANK_PATTERNS.generic.transactionPattern\<close>:
  \<^verbatim>\<open>/(\d{1,2}[\/\-]\d{1,2}[\/\-]\d{2,4})\s+(.+?)\s+([\-\$\d,\.]+)(?:\s+([\$\d,\.]+))?/g\<close>\<close>

definition date_token :: "rx list" where
  "date_token =
     [Rep True is_digit 1 (Some 2), rx_one is_date_sep, Rep True is_digit 1 (Some 2),
      rx_one is_date_sep, Rep True is_digit 2 (Some 4)]"

definition transactionPattern :: rx where
  "transactionPattern =
     seqs (date_token @
       [rx_plus is_space, Rep False is_dot 1 None, rx_plus is_space,
        rx_plus (\<lambda>c. c \<in> set ''-$,.'' \<or> is_digit c),
        Opt (seqs [rx_plus is_space, rx_plus (\<lambda>c. c \<in> set ''$,.'' \<or> is_digit c)])])"


text \<open>The stable sort of \<open>Array.prototype.sort\<close> with a comparator: a comparator result
  that is \<open>NaN\<close> counts as \<open>0\<close>. An element moves behind a later one only when the
  comparator says it is greater.\<close>

fun sort_insert :: "('a \<Rightarrow> 'a \<Rightarrow> jsnum) \<Rightarrow> 'a \<Rightarrow> 'a list \<Rightarrow> 'a list" where
  "sort_insert cmp x [] = [x]"
| "sort_insert cmp x (y # ys) =
     (if js_gt0 (cmp x y) then y # sort_insert cmp x ys else x # y # ys)"

definition js_sort :: "('a \<Rightarrow> 'a \<Rightarrow> jsnum) \<Rightarrow> 'a list \<Rightarrow> 'a list" where
  "js_sort cmp xs = foldr (sort_insert cmp) xs []"

text \<open>A \<open>Map\<close> in insertion order: \<open>set\<close> on a present key keeps its place.\<close>

fun map_set :: "('k \<times> 'v) list \<Rightarrow> 'k \<Rightarrow> 'v \<Rightarrow> ('k \<times> 'v) list" where
  "map_set [] k v = [(k, v)]"
| "map_set ((k', v') # m) k v =
     (if k' = k then (k, v) # m else (k', v') # map_set m k v)"

definition map_get :: "('k \<times> 'v) list \<Rightarrow> 'k \<Rightarrow> 'v option" where
  "map_get m k = map_of m k"

definition map_values :: "('k \<times> 'v) list \<Rightarrow> 'v list" where
  "map_values m = map snd m"

section \<open>The AI interface (\<open>callAI\<close>) and the feedback hook (\<open>excelExporter.ts\<close>)\<close>

text \<open>
  The completion service and \<open>JSON.parse\<close> are outside the repository; they are
  parameters. \<open>generateContent prompt\<close> is what \<open>ai.models.generateContent\<close> does with
  the prompt: it raises, or gives a response whose \<open>text\<close> may be missing (\<open>None\<close>).
  \<open>JSON_parse\<close> raises on text that is no JSON, and is taken at the type its caller
  declares for the parsed value.
\<close>

definition callAI :: "(string \<Rightarrow> js_error + string option) \<Rightarrow> string \<Rightarrow> js_error + string" where
  "callAI generateContent prompt =
     (case generateContent prompt of
        Inl e \<Rightarrow> Inl e
      | Inr content \<Rightarrow>
          (case content of
             None \<Rightarrow> Inl (Error ''No response from AI API'')
           | Some c \<Rightarrow> if c = [] then Inl (Error ''No response from AI API'') else Inr c))"

definition retrain_prompt :: "string \<Rightarrow> string \<Rightarrow> string" where
  "retrain_prompt description correctCategory =
     ''The user corrected the category of '' @ [CHR 0x22] @ description @ [CHR 0x22] @
     '' to '' @ [CHR 0x22] @ correctCategory @ [CHR 0x22] @
     ''. Suggest new keywords or features to improve future classification. Return as an array of strings.''"

definition retrainCategoryFromFeedback ::
  "(string \<Rightarrow> js_error + string option) \<Rightarrow> (string \<Rightarrow> js_error + string list) \<Rightarrow>
   string \<Rightarrow> string \<Rightarrow> js_error + string list" where
  "retrainCategoryFromFeedback generateContent JSON_parse description correctCategory =
     (case callAI generateContent (retrain_prompt description correctCategory) of
        Inl e \<Rightarrow> Inl e
      | Inr response \<Rightarrow> JSON_parse response)"

text \<open>\<open>handleCategoryFeedback\<close>: \<open>try { return await retrainCategoryFromFeedback(...) }
  catch { return [] }\<close>.\<close>

definition handleCategoryFeedback ::
  "(string \<Rightarrow> js_error + string option) \<Rightarrow> (string \<Rightarrow> js_error + string list) \<Rightarrow>
   string \<Rightarrow> string \<Rightarrow> js_error + string list" where
  "handleCategoryFeedback generateContent JSON_parse description correctCategory =
     (case retrainCategoryFromFeedback generateContent JSON_parse description correctCategory of
        Inl e \<Rightarrow> Inr []
      | Inr keywords \<Rightarrow> Inr keywords)"

section \<open>Numbers from text: \<open>parseFloat\<close>, \<open>parseInt\<close>\<close>

definition strip_sign :: "string \<Rightarrow> bool \<times> string" where
  "strip_sign s =
     (case s of
        [] \<Rightarrow> (False, s)
      | c # r \<Rightarrow> if c = CHR ''-'' then (True, r) else if c = CHR ''+'' then (False, r) else (False, s))"

text \<open>The exponent part of a decimal literal, when it is complete (\<open>e\<close>, an optional
  sign, at least one digit); else 0.\<close>

definition exponent_of :: "string \<Rightarrow> int" where
  "exponent_of s =
     (case s of
        [] \<Rightarrow> 0
      | c # r \<Rightarrow>
          if c = CHR ''e'' \<or> c = CHR ''E'' then
            (let (neg, ds) = strip_sign r
             in if takeWhile is_digit ds = [] then 0
                else (if neg then - int (digits_val (takeWhile is_digit ds))
                      else int (digits_val (takeWhile is_digit ds))))
          else 0)"

text \<open>\<open>parseFloat\<close>: leading white space is skipped, then the longest prefix that is a
  decimal literal is read; \<open>NaN\<close> when there is none.\<close>

definition parseFloat :: "string \<Rightarrow> jsnum" where
  "parseFloat input =
     (let (neg, s) = strip_sign (dropWhile is_space input)
      in if startsWith s ''Infinity'' then (if neg then NegInfinity else PosInfinity)
         else
           (let ip = takeWhile is_digit s;
                r = dropWhile is_digit s;
                dot = (r \<noteq> [] \<and> hd r = CHR ''.'');
                fp = (if dot then takeWhile is_digit (tl r) else []);
                r' = (if dot then dropWhile is_digit (tl r) else r)
            in if ip = [] \<and> fp = [] then NaN
               else
                 (let m = real (digits_val ip) + real (digits_val fp) / 10 ^ length fp;
                      e = exponent_of r';
                      v = (if e \<ge> 0 then m * 10 ^ nat e else m / 10 ^ nat (- e))
                  in Num (if neg then - v else v))))"

definition hex_val :: "char \<Rightarrow> nat option" where
  "hex_val c =
     (if is_digit c then Some (digit_val c)
      else if c \<in> set ''abcdef'' then Some (of_char c - 87)
      else if c \<in> set ''ABCDEF'' then Some (of_char c - 55)
      else None)"

text \<open>\<open>parseInt(s)\<close> without a radix: white space, a sign, \<open>0x\<close> for base 16, then the
  digits up to the first character that is none; \<open>NaN\<close> (\<open>None\<close>) without a digit.\<close>

definition parseInt :: "string \<Rightarrow> int option" where
  "parseInt input =
     (let (neg, s) = strip_sign (dropWhile is_space input);
          hex = (startsWith s ''0x'' \<or> startsWith s ''0X'');
          v = (if hex then
                 (let ds = takeWhile (\<lambda>c. hex_val c \<noteq> None) (drop 2 s)
                  in if ds = [] then None
                     else Some (foldl (\<lambda>a c. 16 * a + the (hex_val c)) 0 ds))
               else
                 (let ds = takeWhile is_digit s
                  in if ds = [] then None else Some (digits_val ds)))
      in case v of None \<Rightarrow> None | Some n \<Rightarrow> Some (if neg then - int n else int n))"

section \<open>Dates: the \<open>Date\<close> object\<close>

text \<open>
  A time value is a number of milliseconds since 1970-01-01 UTC, or \<open>NaN\<close> (\<open>None\<close>).
  The calendar follows the language standard: \<open>Day\<close>, \<open>DayFromYear\<close>, \<open>YearFromTime\<close>
  (the year \<open>y\<close> with \<open>DayFromYear y \<le> day < DayFromYear (y + 1)\<close>), \<open>MonthFromTime\<close>,
  \<open>DateFromTime\<close>, \<open>MakeDay\<close>, \<open>TimeClip\<close>.
\<close>

definition msPerDay :: int where
  "msPerDay = 86400000"

definition InLeapYear :: "int \<Rightarrow> bool" where
  "InLeapYear y = (y mod 4 = 0 \<and> (y mod 100 \<noteq> 0 \<or> y mod 400 = 0))"

definition DayFromYear :: "int \<Rightarrow> int" where
  "DayFromYear y =
     365 * (y - 1970) + (y - 1969) div 4 - (y - 1901) div 100 + (y - 1601) div 400"

definition YearFromDay :: "int \<Rightarrow> int" where
  "YearFromDay day =
     (let y = 1970 + (400 * day) div 146097
      in if DayFromYear (y + 1) \<le> day then y + 1
         else if DayFromYear y \<le> day then y
         else y - 1)"

text \<open>The number of days of a year before its month \<open>m\<close> (0 to 11, and 12 for the
  whole year).\<close>

definition days_before_month :: "bool \<Rightarrow> int \<Rightarrow> int" where
  "days_before_month leap m =
     (let l = (if leap then 1 else 0)
      in if m \<le> 0 then 0 else if m = 1 then 31 else if m = 2 then 59 + l
         else if m = 3 then 90 + l else if m = 4 then 120 + l else if m = 5 then 151 + l
         else if m = 6 then 181 + l else if m = 7 then 212 + l else if m = 8 then 243 + l
         else if m = 9 then 273 + l else if m = 10 then 304 + l else if m = 11 then 334 + l
         else 365 + l)"

text \<open>\<open>MonthFromTime\<close> (0 to 11), from the day within the year.\<close>

definition MonthFromDayInYear :: "bool \<Rightarrow> int \<Rightarrow> int" where
  "MonthFromDayInYear leap d =
     (if d < days_before_month leap 1 then 0 else if d < days_before_month leap 2 then 1
      else if d < days_before_month leap 3 then 2 else if d < days_before_month leap 4 then 3
      else if d < days_before_month leap 5 then 4 else if d < days_before_month leap 6 then 5
      else if d < days_before_month leap 7 then 6 else if d < days_before_month leap 8 then 7
      else if d < days_before_month leap 9 then 8 else if d < days_before_month leap 10 then 9
      else if d < days_before_month leap 11 then 10 else 11)"

definition DaysInMonth :: "int \<Rightarrow> int \<Rightarrow> int" where
  "DaysInMonth y m = days_before_month (InLeapYear y) (m + 1) - days_before_month (InLeapYear y) m"

definition MakeDay :: "int \<Rightarrow> int \<Rightarrow> int \<Rightarrow> int" where
  "MakeDay year month dt =
     (let ym = year + month div 12; mn = month mod 12
      in DayFromYear ym + days_before_month (InLeapYear ym) mn + dt - 1)"

definition TimeClip :: "int \<Rightarrow> int option" where
  "TimeClip t = (if \<bar>t\<bar> > 8640000000000000 then None else Some t)"

text \<open>\<open>new Date(year, month, day)\<close> with numbers that may be \<open>NaN\<close>: the fields are read
  in local time. \<open>LocalTZA t\<close> is the offset of local time from UTC at local time \<open>t\<close>.\<close>

definition Date_ymd :: "(int \<Rightarrow> int) \<Rightarrow> int option \<Rightarrow> int option \<Rightarrow> int option \<Rightarrow> int option" where
  "Date_ymd LocalTZA year month day =
     (case (year, month, day) of
        (Some y, Some m, Some dt) \<Rightarrow>
          (let yr = (if 0 \<le> y \<and> y \<le> 99 then 1900 + y else y);
               finalDate = MakeDay yr m dt * msPerDay
           in TimeClip (finalDate - LocalTZA finalDate))
      | _ \<Rightarrow> None)"

text \<open>The calendar date of a time value, and \<open>toISOString().split("T")[0]\<close>: the year
  with four digits, or with a sign and six digits outside 0 to 9999.\<close>

fun fixed_digits :: "nat \<Rightarrow> nat \<Rightarrow> string" where
  "fixed_digits 0 n = []"
| "fixed_digits (Suc w) n = fixed_digits w (n div 10) @ [digit_char (n mod 10)]"

definition civil_of_day :: "int \<Rightarrow> int \<times> int \<times> int" where
  "civil_of_day day =
     (let y = YearFromDay day;
          d = day - DayFromYear y;
          m = MonthFromDayInYear (InLeapYear y) d
      in (y, m + 1, d - days_before_month (InLeapYear y) m + 1))"

definition iso_date_string :: "int \<Rightarrow> int \<Rightarrow> int \<Rightarrow> string" where
  "iso_date_string y m d =
     (if 0 \<le> y \<and> y \<le> 9999 then fixed_digits 4 (nat y)
      else (if y < 0 then ''-'' else ''+'') @ fixed_digits 6 (nat \<bar>y\<bar>)) @
     ''-'' @ fixed_digits 2 (nat m) @ ''-'' @ fixed_digits 2 (nat d)"

definition toISODate :: "int \<Rightarrow> string" where
  "toISODate t = (case civil_of_day (t div msPerDay) of (y, m, d) \<Rightarrow> iso_date_string y m d)"

text \<open>The date-only forms of the standard's date-time string format, \<open>YYYY-MM-DD\<close> and
  \<open>\<plusminus>YYYYYY-MM-DD\<close>, with a month and a day that exist: year, month, day.\<close>

definition iso_fields :: "string \<Rightarrow> (int \<times> int \<times> int) option" where
  "iso_fields s =
     (if length s = 10 \<and> list_all is_digit (take 4 s) \<and> s ! 4 = CHR ''-'' \<and>
         list_all is_digit (take 2 (drop 5 s)) \<and> s ! 7 = CHR ''-'' \<and>
         list_all is_digit (drop 8 s)
      then Some (int (digits_val (take 4 s)), int (digits_val (take 2 (drop 5 s))),
                 int (digits_val (drop 8 s)))
      else if length s = 13 \<and> (s ! 0 = CHR ''+'' \<or> s ! 0 = CHR ''-'') \<and>
         list_all is_digit (take 6 (drop 1 s)) \<and> s ! 7 = CHR ''-'' \<and>
         list_all is_digit (take 2 (drop 8 s)) \<and> s ! 10 = CHR ''-'' \<and>
         list_all is_digit (drop 11 s) \<and>
         \<not> (s ! 0 = CHR ''-'' \<and> digits_val (take 6 (drop 1 s)) = 0)
      then Some ((if s ! 0 = CHR ''-'' then - int (digits_val (take 6 (drop 1 s)))
                  else int (digits_val (take 6 (drop 1 s)))),
                 int (digits_val (take 2 (drop 8 s))), int (digits_val (drop 11 s)))
      else None)"

definition parse_iso_date :: "string \<Rightarrow> int option" where
  "parse_iso_date s =
     (case iso_fields s of
        None \<Rightarrow> None
      | Some (y, m, d) \<Rightarrow>
          if 1 \<le> m \<and> m \<le> 12 \<and> 1 \<le> d \<and> d \<le> DaysInMonth y (m - 1)
          then TimeClip (MakeDay y (m - 1) d * msPerDay) else None)"

text \<open>\<open>new Date(s).getTime()\<close>. A date-only string of the standard format is read as UTC
  midnight. What any other string gives is left to the implementation by the standard:
  \<open>Date_legacy\<close> stands for it.\<close>

definition Date_parse :: "(string \<Rightarrow> int option) \<Rightarrow> string \<Rightarrow> int option" where
  "Date_parse Date_legacy s =
     (case parse_iso_date s of
        Some t \<Rightarrow> Some t
      | None \<Rightarrow> (case Date_legacy s of None \<Rightarrow> None | Some t \<Rightarrow> TimeClip t))"

section \<open>The data model (\<open>pdfParser.ts\<close>, \<open>types/bankTemplate.ts\<close>)\<close>

datatype TransactionType = debit | credit

text \<open>\<open>ParsedTransaction\<close>, with the fields of all its variants in the repository; an
  optional field that is absent is \<open>None\<close>.\<close>

record ParsedTransaction =
  date :: string
  description :: string
  amount :: jsnum
  balance :: "jsnum option"
  txn_type :: TransactionType
  category :: "string option"
  confidence :: "real option"
  currency :: "string option"

record BankStatementData =
  bankName :: string
  accountNumber :: string
  statementPeriod :: string
  transactions :: "ParsedTransaction list"
  openingBalance :: "jsnum option"
  closingBalance :: "jsnum option"

record TransactionIndicators =
  creditKeywords :: "string list"
  debitKeywords :: "string list"

text \<open>A \<open>RegExp\<close> object built at run time is held by what its \<open>test\<close> answers. The
  fields \<open>amountPatterns\<close>, \<open>descriptionPatterns\<close>, \<open>balancePatterns\<close> and
  \<open>statementPeriodPattern\<close> hold constant pattern literals that no operation reads;
  they are not part of the record.\<close>

record Parsing =
  dateFormats :: "string list"
  accountNumberPattern :: "string \<Rightarrow> bool"
  transactionIndicators :: TransactionIndicators

record AiInstructions =
  extractionPrompt :: string
  validationRules :: "string list"
  categoryMappings :: "string \<rightharpoonup> string"

record Metadata =
  supportedFormats :: "string list"
  language :: string
  region :: string
  metadata_currency :: string
  avgAccuracy :: real
  sampleStatements :: "string list option"

record BankTemplate =
  template_id :: string
  bankName :: string
  templateName :: string
  version :: string
  createdAt :: int
  updatedAt :: int
  createdBy :: string
  usageCount :: nat
  isVerified :: bool
  parsing :: Parsing
  aiInstructions :: "AiInstructions option"
  metadata :: Metadata

text \<open>\<open>TemplateMatchResult\<close>; \<open>template\<close> is a reference to the template object.\<close>

record TemplateMatchResult =
  template :: nat
  match_confidence :: real
  matchedFeatures :: "string list"

section \<open>The template service (\<open>services/templateService.ts\<close>)\<close>

text \<open>
  The service holds \<open>templates: Map<string, BankTemplate>\<close>. Template objects are shared
  and updated in place, so the model keeps them in a store (\<open>heap\<close>, a reference is an
  index) and the map holds references. \<open>db_calls\<close> records the calls to the persistence
  methods \<open>saveTemplate\<close> and \<open>updateTemplateInDB\<close>, each with the template's id.
\<close>

datatype db_call = SaveTemplate string | UpdateTemplateInDB string

record TemplateService =
  heap :: "BankTemplate list"
  templates :: "(string \<times> nat) list"
  db_calls :: "db_call list"

definition catalogue :: "TemplateService \<Rightarrow> nat list" where
  "catalogue svc = map_values (templates svc)"

text \<open>\<open>fetchTemplatesFromDB\<close> ("Implement database fetch") returns the empty array.\<close>

definition fetchTemplatesFromDB :: "BankTemplate list" where
  "fetchTemplatesFromDB = []"

definition loadTemplates :: "TemplateService \<Rightarrow> TemplateService" where
  "loadTemplates svc =
     foldl (\<lambda>s t. s\<lparr>heap := heap s @ [t],
                      templates := map_set (templates s) (template_id t) (length (heap s))\<rparr>)
       svc fetchTemplatesFromDB"

definition getAvailableTemplates :: "TemplateService \<Rightarrow> nat list" where
  "getAvailableTemplates svc =
     js_sort (\<lambda>a b. Num (real (usageCount (heap svc ! b)) - real (usageCount (heap svc ! a))))
       (catalogue svc)"

definition getTemplatesByBank :: "TemplateService \<Rightarrow> string \<Rightarrow> nat list" where
  "getTemplatesByBank svc name =
     js_sort (\<lambda>a b. Num (avgAccuracy (metadata (heap svc ! b)) - avgAccuracy (metadata (heap svc ! a))))
       (filter (\<lambda>r. js_includes (toLowerCase (bankName (heap svc ! r))) (toLowerCase name))
          (catalogue svc))"

subsection \<open>\<open>calculateTemplateMatch\<close>\<close>

text \<open>\<^verbatim>\<open>/\d{1,2}\/\d{1,2}\/\d{4}/\<close> and \<^verbatim>\<open>/\d{4}-\d{1,2}-\d{1,2}/\<close>.\<close>

definition rx_MDY :: rx where
  "rx_MDY = seqs [Rep True is_digit 1 (Some 2), rx_one (\<lambda>c. c = CHR ''/''),
                  Rep True is_digit 1 (Some 2), rx_one (\<lambda>c. c = CHR ''/''),
                  Rep True is_digit 4 (Some 4)]"

definition rx_YMD :: rx where
  "rx_YMD = seqs [Rep True is_digit 4 (Some 4), rx_one (\<lambda>c. c = CHR ''-''),
                  Rep True is_digit 1 (Some 2), rx_one (\<lambda>c. c = CHR ''-''),
                  Rep True is_digit 1 (Some 2)]"

text \<open>The names every object literal inherits from \<open>Object.prototype\<close>.\<close>

definition Object_prototype_keys :: "string list" where
  "Object_prototype_keys =
     [''constructor'', ''__defineGetter__'', ''__defineSetter__'', ''hasOwnProperty'',
      ''__lookupGetter__'', ''__lookupSetter__'', ''isPrototypeOf'', ''propertyIsEnumerable'',
      ''toString'', ''valueOf'', ''__proto__'', ''toLocaleString'']"

text \<open>\<open>dateFormatToRegex\<close>: \<open>patterns[format] || patterns["MM/DD/YYYY"]\<close>. For a name
  inherited from \<open>Object.prototype\<close> the lookup yields that member, which is truthy and
  no \<open>RegExp\<close> (\<open>None\<close>): calling its \<open>test\<close> raises a \<open>TypeError\<close>.\<close>

definition dateFormatToRegex :: "string \<Rightarrow> rx option" where
  "dateFormatToRegex format =
     (if format = ''MM/DD/YYYY'' then Some rx_MDY
      else if format = ''DD/MM/YYYY'' then Some rx_MDY
      else if format = ''YYYY-MM-DD'' then Some rx_YMD
      else if format \<in> set Object_prototype_keys then None
      else Some rx_MDY)"

text \<open>\<open>dateFormats.some(format => dateFormatToRegex(format).test(statementText))\<close>.\<close>

fun dateFormats_some :: "string \<Rightarrow> string list \<Rightarrow> js_error + bool" where
  "dateFormats_some statementText [] = Inr False"
| "dateFormats_some statementText (format # formats) =
     (case dateFormatToRegex format of
        None \<Rightarrow> Inl TypeError
      | Some regex \<Rightarrow>
          if rx_test regex statementText then Inr True
          else dateFormats_some statementText formats)"

definition keywords_some :: "string \<Rightarrow> string list \<Rightarrow> bool" where
  "keywords_some statementText keywords =
     list_ex (\<lambda>keyword. js_includes (toLowerCase statementText) (toLowerCase keyword)) keywords"

definition calculateTemplateMatch :: "string \<Rightarrow> BankTemplate \<Rightarrow> js_error + real" where
  "calculateTemplateMatch statementText t =
     (let score = 0 :: real; maxScore = 0 :: real;
          maxScore = maxScore + 30;
          score = (if js_includes (toLowerCase statementText) (toLowerCase (bankName t))
                   then score + 30 else score);
          maxScore = maxScore + 20;
          score = (if accountNumberPattern (parsing t) statementText then score + 20 else score);
          maxScore = maxScore + 25
      in case dateFormats_some statementText (dateFormats (parsing t)) of
           Inl e \<Rightarrow> Inl e
         | Inr dateMatches \<Rightarrow>
            (let score = (if dateMatches then score + 25 else score);
                 maxScore = maxScore + 25;
                 hasCredits = keywords_some statementText
                                (creditKeywords (transactionIndicators (parsing t)));
                 hasDebits = keywords_some statementText
                                (debitKeywords (transactionIndicators (parsing t)));
                 score = (if hasCredits \<and> hasDebits then score + 25
                          else if hasCredits \<or> hasDebits then score + 15 else score)
             in Inr (if maxScore > 0 then score / maxScore else 0)))"

definition getMatchedFeatures :: "string \<Rightarrow> BankTemplate \<Rightarrow> string list" where
  "getMatchedFeatures statementText t =
     (if js_includes (toLowerCase statementText) (toLowerCase (bankName t))
      then [''Bank Name''] else []) @
     (if accountNumberPattern (parsing t) statementText
      then [''Account Number Format''] else [])"

subsection \<open>\<open>findBestTemplate\<close>\<close>

text \<open>The loop over \<open>this.templates.values()\<close> that fills \<open>candidates\<close>; an exception
  of \<open>calculateTemplateMatch\<close> ends it.\<close>

fun collect_candidates ::
  "BankTemplate list \<Rightarrow> string \<Rightarrow> nat list \<Rightarrow> js_error + TemplateMatchResult list" where
  "collect_candidates h statementText [] = Inr []"
| "collect_candidates h statementText (r # rs) =
     (case calculateTemplateMatch statementText (h ! r) of
        Inl e \<Rightarrow> Inl e
      | Inr c \<Rightarrow>
         (case collect_candidates h statementText rs of
            Inl e \<Rightarrow> Inl e
          | Inr rest \<Rightarrow>
              Inr (if c > 0.3
                   then \<lparr>template = r, match_confidence = c,
                         matchedFeatures = getMatchedFeatures statementText (h ! r)\<rparr> # rest
                   else rest)))"

definition findBestTemplate ::
  "TemplateService \<Rightarrow> string \<Rightarrow> js_error + TemplateMatchResult option" where
  "findBestTemplate svc statementText =
     (case collect_candidates (heap svc) statementText (catalogue svc) of
        Inl e \<Rightarrow> Inl e
      | Inr candidates \<Rightarrow>
          Inr (at_index
                 (js_sort (\<lambda>a b. Num (match_confidence b - match_confidence a)) candidates) 0))"


subsection \<open>\<open>createTemplateFromAI\<close>\<close>

text \<open>\<open>anonymizeStatement\<close>: \<^verbatim>\<open>text.replace(/\d{4,}/g, "XXXX")\<close>, then
  \<^verbatim>\<open>.replace(/[A-Z]{2}\d{2}[A-Z\d]+/g, "XXXXXXXX")\<close>, then \<^verbatim>\<open>.substring(0, 500)\<close>.\<close>

definition rx_long_number :: rx where
  "rx_long_number = Rep True is_digit 4 None"

definition rx_account_token :: rx where
  "rx_account_token =
     seqs [Rep True is_upper 2 (Some 2), Rep True is_digit 2 (Some 2),
           rx_plus (\<lambda>c. is_upper c \<or> is_digit c)]"

definition anonymizeStatement :: "string \<Rightarrow> string" where
  "anonymizeStatement txt =
     take 500
       (rx_replace_all rx_account_token ''XXXXXXXX''
          (rx_replace_all rx_long_number ''XXXX'' txt))"

text \<open>\<open>s.replace(/\d/g, rep)\<close>.\<close>

definition replace_digits :: "string \<Rightarrow> string \<Rightarrow> string" where
  "replace_digits s rep = rx_replace_all (rx_one is_digit) rep s"

definition detectDateFormats :: "string list" where
  "detectDateFormats = [''MM/DD/YYYY'', ''DD/MM/YYYY'', ''YYYY-MM-DD'']"

text \<open>\<open>extractParsingPatterns\<close>. \<open>RegExp_new\<close> is the constructor \<open>new RegExp(source)\<close>
  of the run-time system: \<open>None\<close> when the source is no pattern (a \<open>SyntaxError\<close>),
  else what \<open>test\<close> of the new object answers.\<close>

definition extractParsingPatterns ::
  "(string \<Rightarrow> (string \<Rightarrow> bool) option) \<Rightarrow> BankStatementData \<Rightarrow> js_error + Parsing" where
  "extractParsingPatterns RegExp_new data =
     (case RegExp_new (replace_digits (accountNumber data) [CHR 0x5C, CHR ''d'']) of
        None \<Rightarrow> Inl SyntaxError
      | Some pattern \<Rightarrow>
          Inr \<lparr>dateFormats = detectDateFormats,
               accountNumberPattern = pattern,
               transactionIndicators =
                 \<lparr>creditKeywords = [''deposit'', ''credit'', ''transfer in'', ''salary'', ''refund''],
                  debitKeywords = [''withdrawal'', ''debit'', ''purchase'', ''payment'', ''fee'']\<rparr>\<rparr>)"

text \<open>A number in a template literal.\<close>

fun nat_digits :: "nat \<Rightarrow> nat \<Rightarrow> string" where
  "nat_digits 0 n = []"
| "nat_digits (Suc fuel) n =
     (if n < 10 then [digit_char n] else nat_digits fuel (n div 10) @ [digit_char (n mod 10)])"

definition nat_to_string :: "nat \<Rightarrow> string" where
  "nat_to_string n = nat_digits (Suc n) n"

definition generateExtractionPrompt :: "BankStatementData \<Rightarrow> string" where
  "generateExtractionPrompt data =
     [CHR 0x0A] @ ''      Extract bank statement data for '' @ BankStatementData.bankName data @ ''. '' @
     [CHR 0x0A] @ ''      Expected format includes account number pattern similar to '' @
       replace_digits (accountNumber data) ''X'' @ ''.'' @
     [CHR 0x0A] @ ''      Statement period format: '' @ statementPeriod data @ ''.'' @
     [CHR 0x0A] @ ''      Typical transaction count: '' @
       nat_to_string (length (transactions data)) @ ''.'' @
     [CHR 0x0A] @ ''    ''"

definition generateValidationRules :: "BankStatementData \<Rightarrow> string list" where
  "generateValidationRules data =
     [''Bank name should be '' @ [CHR 0x22] @ BankStatementData.bankName data @ [CHR 0x22],
      ''Account number should match pattern: '' @ replace_digits (accountNumber data) ''X'',
      ''Transactions should have dates in statement period'',
      ''All amounts should be positive numbers'',
      ''Transaction types should be either '' @ [CHR 0x27] @ ''credit'' @ [CHR 0x27] @
        '' or '' @ [CHR 0x27] @ ''debit'' @ [CHR 0x27]]"

text \<open>\<open>generateCategoryMappings\<close>: \<open>mappings[key] = t.category\<close> for every transaction
  with a non-empty category and description. An assignment to the key \<open>__proto__\<close> of
  a string value stores nothing.\<close>

definition generateCategoryMappings :: "ParsedTransaction list \<Rightarrow> (string \<rightharpoonup> string)" where
  "generateCategoryMappings ts =
     foldl (\<lambda>mappings t.
        (case category t of
           Some cat \<Rightarrow>
             if cat \<noteq> [] \<and> description t \<noteq> [] then
               (let key = take 20 (toLowerCase (description t))
                in if key = ''__proto__'' then mappings else mappings(key \<mapsto> cat))
             else mappings
         | None \<Rightarrow> mappings))
       Map.empty ts"

definition detectRegion :: "BankStatementData \<Rightarrow> string" where
  "detectRegion data = ''US''"

text \<open>\<open>transactions[0]?.currency || "USD"\<close>.\<close>

definition detectCurrency :: "ParsedTransaction list \<Rightarrow> string" where
  "detectCurrency ts =
     (case ts of
        [] \<Rightarrow> ''USD''
      | t # _ \<Rightarrow> (case currency t of None \<Rightarrow> ''USD'' | Some c \<Rightarrow> if c = [] then ''USD'' else c))"

text \<open>
  \<open>createTemplateFromAI\<close>. \<open>now\<close> is the clock (\<open>new Date()\<close>) and \<open>newId\<close> the value of
  \<open>generateTemplateId()\<close>, which is built from the clock and \<open>Math.random()\<close>. The new
  object is stored behind a fresh reference; the result is that reference and the
  service after \<open>saveTemplate\<close> and \<open>this.templates.set\<close>.
\<close>

definition createTemplateFromAI ::
  "(string \<Rightarrow> (string \<Rightarrow> bool) option) \<Rightarrow> int \<Rightarrow> string \<Rightarrow> TemplateService \<Rightarrow>
   BankStatementData \<Rightarrow> string \<Rightarrow> string \<Rightarrow> js_error + (nat \<times> TemplateService)" where
  "createTemplateFromAI RegExp_new now newId svc bankStatementData originalText userId =
     (case extractParsingPatterns RegExp_new bankStatementData of
        Inl e \<Rightarrow> Inl e
      | Inr patterns \<Rightarrow>
         (let t = \<lparr>template_id = newId,
                   bankName = BankStatementData.bankName bankStatementData,
                   templateName = BankStatementData.bankName bankStatementData @ '' - Auto Generated'',
                   version = ''1.0.0'',
                   createdAt = now,
                   updatedAt = now,
                   createdBy = userId,
                   usageCount = 1,
                   isVerified = False,
                   parsing = patterns,
                   aiInstructions = Some
                     \<lparr>extractionPrompt = generateExtractionPrompt bankStatementData,
                      validationRules = generateValidationRules bankStatementData,
                      categoryMappings = generateCategoryMappings (transactions bankStatementData)\<rparr>,
                   metadata =
                     \<lparr>supportedFormats = [''pdf''],
                      language = ''en'',
                      region = detectRegion bankStatementData,
                      metadata_currency = detectCurrency (transactions bankStatementData),
                      avgAccuracy = 0.85,
                      sampleStatements = Some [anonymizeStatement originalText]\<rparr>\<rparr>;
              r = length (heap svc)
          in Inr (r, svc\<lparr>heap := heap svc @ [t],
                         db_calls := db_calls svc @ [SaveTemplate (template_id t)],
                         templates := map_set (templates svc) (template_id t) r\<rparr>)))"

subsection \<open>\<open>updateTemplateMetrics\<close>\<close>

text \<open>\<open>updateTemplateMetrics(templateId, accuracy)\<close> at clock \<open>now\<close>; the optional
  \<open>userFeedback\<close> is not read.\<close>

definition updateTemplateMetrics ::
  "int \<Rightarrow> TemplateService \<Rightarrow> string \<Rightarrow> real \<Rightarrow> TemplateService" where
  "updateTemplateMetrics now svc templateId accuracy =
     (case map_get (templates svc) templateId of
        None \<Rightarrow> svc
      | Some r \<Rightarrow>
         (let t = heap svc ! r;
              t = t\<lparr>usageCount := usageCount t + 1\<rparr>;
              t = t\<lparr>metadata := (metadata t)\<lparr>avgAccuracy :=
                     (avgAccuracy (metadata t) * real (usageCount t - 1) + accuracy) /
                     real (usageCount t)\<rparr>\<rparr>;
              t = t\<lparr>updatedAt := now\<rparr>;
              t = (if usageCount t \<ge> 10 \<and> avgAccuracy (metadata t) \<ge> 0.9
                   then t\<lparr>isVerified := True\<rparr> else t)
          in svc\<lparr>heap := (heap svc)[r := t],
                  db_calls := db_calls svc @ [UpdateTemplateInDB (template_id t)],
                  templates := map_set (templates svc) templateId r\<rparr>))"

text \<open>A sequence of calls \<open>updateTemplateMetrics(templateId, a)\<close>, one per observed
  accuracy, each at its own clock value.\<close>

fun updateTemplateMetrics_seq ::
  "TemplateService \<Rightarrow> string \<Rightarrow> (int \<times> real) list \<Rightarrow> TemplateService" where
  "updateTemplateMetrics_seq svc templateId [] = svc"
| "updateTemplateMetrics_seq svc templateId ((now, a) # calls) =
     updateTemplateMetrics_seq (updateTemplateMetrics now svc templateId a) templateId calls"

subsection \<open>The operations of the template engine\<close>

datatype engine_op =
    LoadTemplates
  | GetAvailableTemplates
  | GetTemplatesByBank string
  | FindBestTemplate string
  | CreateTemplateFromAI int string BankStatementData string string
  | UpdateTemplateMetrics int string real

text \<open>The service after one operation; the queries leave it as it is, and so does a
  \<open>createTemplateFromAI\<close> that raises.\<close>

fun engine_step ::
  "(string \<Rightarrow> (string \<Rightarrow> bool) option) \<Rightarrow> TemplateService \<Rightarrow> engine_op \<Rightarrow> TemplateService" where
  "engine_step RegExp_new svc LoadTemplates = loadTemplates svc"
| "engine_step RegExp_new svc GetAvailableTemplates = svc"
| "engine_step RegExp_new svc (GetTemplatesByBank name) = svc"
| "engine_step RegExp_new svc (FindBestTemplate statementText) = svc"
| "engine_step RegExp_new svc (CreateTemplateFromAI now newId data originalText userId) =
     (case createTemplateFromAI RegExp_new now newId svc data originalText userId of
        Inl e \<Rightarrow> svc
      | Inr (r, svc') \<Rightarrow> svc')"
| "engine_step RegExp_new svc (UpdateTemplateMetrics now templateId accuracy) =
     updateTemplateMetrics now svc templateId accuracy"

definition engine_run ::
  "(string \<Rightarrow> (string \<Rightarrow> bool) option) \<Rightarrow> TemplateService \<Rightarrow> engine_op list \<Rightarrow> TemplateService" where
  "engine_run RegExp_new svc ops = foldl (engine_step RegExp_new) svc ops"

section \<open>The transaction recognizer (\<open>pdfParser.ts\<close>)\<close>

subsection \<open>\<open>normalizeDate\<close>\<close>

text \<open>The \<open>try\<close> block has no statement that raises (\<open>toISOString\<close> is called on valid
  dates only), so the \<open>catch\<close> is never entered.\<close>

text \<open>The second attempt of \<open>normalizeDate\<close>: the three parts as month, day and year,
  and \<open>new Date(year, month, day)\<close>; \<open>None\<close> when the parts are not three or the date
  is invalid.\<close>

definition parts_date :: "(int \<Rightarrow> int) \<Rightarrow> string \<Rightarrow> int option" where
  "parts_date LocalTZA dateStr =
     (let parts = split_on is_date_sep dateStr
      in if length parts = 3 then
           (let yearPart = parseInt (parts ! 2);
                yearPart = (case yearPart of
                              None \<Rightarrow> None
                            | Some y \<Rightarrow> if y < 100 then Some (y + (if y < 50 then 2000 else 1900))
                                       else Some y);
                month = (case parseInt (parts ! 0) of None \<Rightarrow> None | Some m \<Rightarrow> Some (m - 1));
                day = parseInt (parts ! 1)
            in Date_ymd LocalTZA yearPart month day)
         else None)"

definition normalizeDate :: "(string \<Rightarrow> int option) \<Rightarrow> (int \<Rightarrow> int) \<Rightarrow> string \<Rightarrow> string" where
  "normalizeDate Date_legacy LocalTZA dateStr =
     (case Date_parse Date_legacy dateStr of
        Some t \<Rightarrow> toISODate t
      | None \<Rightarrow>
          (case parts_date LocalTZA dateStr of
             Some t \<Rightarrow> toISODate t
           | None \<Rightarrow> dateStr))"

text \<open>What the recognizer takes from outside: the completion service and \<open>JSON.parse\<close>
  (at the type \<open>{category, confidence}\<close>), the implementation's reading of date strings
  that are not in the standard format, and the local time zone.\<close>

record CategoryInfo =
  info_category :: string
  info_confidence :: real

record runtime =
  generateContent :: "string \<Rightarrow> js_error + string option"
  JSON_parse_category :: "string \<Rightarrow> js_error + CategoryInfo"
  Date_legacy :: "string \<Rightarrow> int option"
  LocalTZA :: "int \<Rightarrow> int"

subsection \<open>Categories\<close>

definition categorizeTransaction :: "string \<Rightarrow> string" where
  "categorizeTransaction d =
     (let desc = toLowerCase d
      in if js_includes desc ''deposit'' \<or> js_includes desc ''salary'' \<or>
            js_includes desc ''payroll'' \<or> js_includes desc ''direct dep'' then ''Income''
         else if js_includes desc ''grocery'' \<or> js_includes desc ''food'' \<or>
            js_includes desc ''restaurant'' \<or> js_includes desc ''dining'' then ''Food & Dining''
         else if js_includes desc ''gas'' \<or> js_includes desc ''fuel'' \<or>
            js_includes desc ''transport'' \<or> js_includes desc ''uber'' \<or>
            js_includes desc ''lyft'' then ''Transportation''
         else if js_includes desc ''atm'' \<or> js_includes desc ''withdrawal'' then ''Cash & ATM''
         else if js_includes desc ''transfer'' then ''Transfers''
         else if js_includes desc ''fee'' \<or> js_includes desc ''charge'' then ''Fees & Charges''
         else if js_includes desc ''payment'' \<or> js_includes desc ''bill'' \<or>
            js_includes desc ''utility'' \<or> js_includes desc ''electric'' \<or>
            js_includes desc ''water'' \<or> js_includes desc ''internet'' then ''Bills & Utilities''
         else if js_includes desc ''shopping'' \<or> js_includes desc ''store'' \<or>
            js_includes desc ''amazon'' \<or> js_includes desc ''walmart'' \<or>
            js_includes desc ''target'' then ''Shopping''
         else if js_includes desc ''medical'' \<or> js_includes desc ''pharmacy'' \<or>
            js_includes desc ''doctor'' \<or> js_includes desc ''hospital'' then ''Healthcare''
         else ''Other'')"

definition categorize_prompt :: "string \<Rightarrow> string" where
  "categorize_prompt d =
     ''Categorize this transaction description: '' @ [CHR 0x22] @ d @ [CHR 0x22] @
     ''. Return the category (like Food, Travel, Income) and confidence score between 0 and 1 as JSON.''"

definition categorizeTransactionAI :: "runtime \<Rightarrow> string \<Rightarrow> js_error + CategoryInfo" where
  "categorizeTransactionAI R d =
     (case callAI (generateContent R) (categorize_prompt d) of
        Inl e \<Rightarrow> Inl e
      | Inr response \<Rightarrow> JSON_parse_category R response)"

text \<open>\<open>categoryInfo\<close> after the \<open>try\<close>/\<open>catch\<close> of the recognizer: the AI's answer, or
  the keyword category with the default confidence 0.5.\<close>

definition categoryInfo_of :: "runtime \<Rightarrow> string \<Rightarrow> CategoryInfo" where
  "categoryInfo_of R d =
     (case categorizeTransactionAI R d of
        Inr info \<Rightarrow> info
      | Inl e \<Rightarrow> \<lparr>info_category = categorizeTransaction d, info_confidence = 0.5\<rparr>)"

subsection \<open>The primary strategy: the loop of \<open>parseTransactions\<close>\<close>

text \<open>\<open>s.replace(/[\$,]/g, "")\<close>.\<close>

definition strip_currency :: "string \<Rightarrow> string" where
  "strip_currency s = rx_replace_all (rx_one (\<lambda>c. c \<in> set ''$,'')) [] s"

text \<open>
  The body of the loop, for one line: the transaction it pushes, if any.
  \<open>transactionPattern\<close> has the \<open>g\<close> flag, so \<open>line.match\<close> gives the array of the
  matched texts, and \<open>[, date, description, amount, balance] = match\<close> binds the second
  to fifth of them (\<open>undefined\<close> where the array is shorter); they are \<open>v_date\<close>,
  \<open>v_description\<close>, \<open>v_amount\<close>, \<open>v_balance\<close> here.
\<close>

definition primary_line :: "runtime \<Rightarrow> string \<Rightarrow> ParsedTransaction option" where
  "primary_line R line =
     (case rx_match_g transactionPattern line of
        None \<Rightarrow> None
      | Some m \<Rightarrow>
          (case (at_index m 1, at_index m 2, at_index m 3) of
             (Some v_date, Some v_description, Some v_amount) \<Rightarrow>
               if v_date = [] \<or> v_description = [] \<or> v_amount = [] then None
               else
                 (let cleanAmountStr = strip_currency v_amount;
                      cleanAmount = parseFloat cleanAmountStr;
                      cleanBalance =
                        (case at_index m 4 of
                           None \<Rightarrow> None
                         | Some v_balance \<Rightarrow>
                             if v_balance = [] then None else Some (parseFloat (strip_currency v_balance)))
                  in if \<not> isNaN cleanAmount then
                       (let categoryInfo = categoryInfo_of R v_description
                        in Some \<lparr>date = normalizeDate (Date_legacy R) (LocalTZA R) v_date,
                                 description = trim v_description,
                                 amount = Math_abs cleanAmount,
                                 balance = cleanBalance,
                                 txn_type = (if js_lt0 cleanAmount then debit else credit),
                                 category = Some (info_category categoryInfo),
                                 confidence = Some (info_confidence categoryInfo),
                                 currency = None\<rparr>)
                     else None)
           | _ \<Rightarrow> None))"

definition text_lines :: "string \<Rightarrow> string list" where
  "text_lines s = split_on (\<lambda>c. c = CHR 0x0A) s"

definition primary_strategy :: "runtime \<Rightarrow> string \<Rightarrow> ParsedTransaction list" where
  "primary_strategy R s = List.map_filter (primary_line R) (text_lines s)"

subsection \<open>The alternative strategy: \<open>parseTransactionsAlternative\<close>\<close>

text \<open>\<^verbatim>\<open>/(\d{1,2}[\/\-]\d{1,2}[\/\-]\d{2,4})/\<close> and \<^verbatim>\<open>/([\-\$]?[\d,]+\.[\d]{2})/g\<close>.\<close>

definition date_pattern :: rx where
  "date_pattern = seqs date_token"

definition amount_pattern :: rx where
  "amount_pattern =
     seqs [Rep True (\<lambda>c. c \<in> set ''-$'') 0 (Some 1), rx_plus (\<lambda>c. is_digit c \<or> c = CHR '',''),
           rx_one (\<lambda>c. c = CHR ''.''), Rep True is_digit 2 (Some 2)]"

text \<open>The inner loop over the line of the date and the next two: description, amount
  and balance when it ends.\<close>

fun lookahead :: "string \<Rightarrow> string list \<Rightarrow> string \<Rightarrow> string \<times> jsnum \<times> jsnum option" where
  "lookahead dateMatch [] desc = (desc, Num 0, None)"
| "lookahead dateMatch (currentLine # rest) desc =
     (case rx_match_g amount_pattern currentLine of
        Some (a # others) \<Rightarrow>
          (trim (replace_first (rx_replace_all amount_pattern [] currentLine) dateMatch []),
           parseFloat (strip_currency a),
           (case others of [] \<Rightarrow> None | b # _ \<Rightarrow> Some (parseFloat (strip_currency b))))
      | _ \<Rightarrow> lookahead dateMatch rest (desc @ '' '' @ trim (replace_first currentLine dateMatch [])))"

text \<open>The body of the outer loop, for the lines from index \<open>i\<close> on.\<close>

definition alternative_entry :: "runtime \<Rightarrow> string list \<Rightarrow> ParsedTransaction option" where
  "alternative_entry R ls =
     (case ls of
        [] \<Rightarrow> None
      | l # _ \<Rightarrow>
          (case rx_match date_pattern (trim l) of
             None \<Rightarrow> None
           | Some dateMatch \<Rightarrow>
               (case lookahead dateMatch (take 3 ls) [] of
                  (v_description, v_amount, v_balance) \<Rightarrow>
                    if \<not> isNaN v_amount \<and> js_ne0 v_amount \<and> trim v_description \<noteq> [] then
                      (let categoryInfo = categoryInfo_of R v_description
                       in Some \<lparr>date = normalizeDate (Date_legacy R) (LocalTZA R) dateMatch,
                                description = trim v_description,
                                amount = Math_abs v_amount,
                                balance = v_balance,
                                txn_type = (if js_lt0 v_amount then debit else credit),
                                category = Some (info_category categoryInfo),
                                confidence = Some (info_confidence categoryInfo),
                                currency = None\<rparr>)
                    else None)))"

fun alternative_scan :: "runtime \<Rightarrow> string list \<Rightarrow> ParsedTransaction list" where
  "alternative_scan R [] = []"
| "alternative_scan R (l # ls) =
     (case alternative_entry R (l # ls) of
        None \<Rightarrow> alternative_scan R ls
      | Some t \<Rightarrow> t # alternative_scan R ls)"

text \<open>The comparator of both sorts:
  \<open>new Date(a.date).getTime() - new Date(b.date).getTime()\<close>.\<close>

definition date_cmp :: "runtime \<Rightarrow> ParsedTransaction \<Rightarrow> ParsedTransaction \<Rightarrow> jsnum" where
  "date_cmp R a b =
     (case (Date_parse (Date_legacy R) (date a), Date_parse (Date_legacy R) (date b)) of
        (Some x, Some y) \<Rightarrow> Num (real_of_int (x - y))
      | _ \<Rightarrow> NaN)"

definition parseTransactionsAlternative :: "runtime \<Rightarrow> string \<Rightarrow> ParsedTransaction list" where
  "parseTransactionsAlternative R s = js_sort (date_cmp R) (alternative_scan R (text_lines s))"

subsection \<open>\<open>parseTransactions\<close>\<close>

definition parseTransactions :: "runtime \<Rightarrow> string \<Rightarrow> ParsedTransaction list" where
  "parseTransactions R s =
     (let transactions = primary_strategy R s
      in if transactions = [] then parseTransactionsAlternative R s
         else js_sort (date_cmp R) transactions)"

section \<open>Vocabulary of the properties\<close>



text \<open>\<open>new TemplateService()\<close>: an empty map.\<close>

definition new_TemplateService :: TemplateService where
  "new_TemplateService = \<lparr>heap = [], templates = [], db_calls = []\<rparr>"

text \<open>Concrete inputs for the examples below: a statement whose account number has eight
  digits, and the pattern constructor on the one source that statement leads to,
  \<^verbatim>\<open>\d\d\d\d\d\d\d\d\<close> (eight digits in a row, anywhere in the text).\<close>

definition example_statement :: BankStatementData where
  "example_statement =
     \<lparr>BankStatementData.bankName = ''Acme Bank'', accountNumber = ''12345678'',
      statementPeriod = ''01/01/2024 - 01/31/2024'', transactions = [],
      openingBalance = None, closingBalance = None\<rparr>"

definition example_RegExp_new :: "string \<Rightarrow> (string \<Rightarrow> bool) option" where
  "example_RegExp_new source =
     (if source = [CHR 0x5C, CHR ''d'', CHR 0x5C, CHR ''d'', CHR 0x5C, CHR ''d'', CHR 0x5C, CHR ''d'',
                   CHR 0x5C, CHR ''d'', CHR 0x5C, CHR ''d'', CHR 0x5C, CHR ''d'', CHR 0x5C, CHR ''d'']
      then Some (rx_test (Rep True is_digit 8 (Some 8))) else None)"

definition example_service :: TemplateService where
  "example_service =
     (case createTemplateFromAI example_RegExp_new 1700000000000 ''template_1700000000000_k3j9x2m1q''
             new_TemplateService example_statement ''Acme Bank account 12345678'' ''user-1'' of
        Inl e \<Rightarrow> new_TemplateService
      | Inr (r, svc) \<Rightarrow> svc)"

text \<open>Nine uses of the example template, each observed with accuracy 1, and the service
  after the first eight and after all nine.\<close>

definition nine_good_runs :: "(int \<times> real) list" where
  "nine_good_runs = map (\<lambda>i. (1700000000000 + int i, 1)) [1..<10]"

definition example_service_used8 :: TemplateService where
  "example_service_used8 =
     updateTemplateMetrics_seq example_service ''template_1700000000000_k3j9x2m1q''
       (butlast nine_good_runs)"

definition example_service_used9 :: TemplateService where
  "example_service_used9 =
     updateTemplateMetrics_seq example_service ''template_1700000000000_k3j9x2m1q'' nine_good_runs"

text \<open>The example service after a second template was created from the same statement.\<close>

definition example_service2 :: TemplateService where
  "example_service2 =
     (case createTemplateFromAI example_RegExp_new 1700000000500 ''template_1700000000500_z8y7x6w5v''
             example_service example_statement ''Acme Bank account 12345678'' ''user-2'' of
        Inl e \<Rightarrow> example_service
      | Inr (r, svc) \<Rightarrow> svc)"

text \<open>A calendar date in the form \<open>YYYY-MM-DD\<close>: the ISO-format validation of a date
  string.\<close>

definition is_iso_date :: "string \<Rightarrow> bool" where
  "is_iso_date s = (length s = 10 \<and> parse_iso_date s \<noteq> None)"

text \<open>A runtime in the UTC time zone whose completion service is unavailable, and whose
  \<open>Date\<close> reads no string outside the standard format.\<close>

definition utc_runtime :: runtime where
  "utc_runtime =
     \<lparr>generateContent = (\<lambda>prompt. Inl (Error ''service unavailable'')),
      JSON_parse_category = (\<lambda>s. Inl SyntaxError),
      Date_legacy = (\<lambda>s. None), LocalTZA = (\<lambda>t. 0)\<rparr>"

text \<open>The same runtime one hour east of UTC.\<close>

definition cet_runtime :: runtime where
  "cet_runtime = utc_runtime \<lparr>LocalTZA := (\<lambda>t. 3600000)\<rparr>"

text \<open>Three lines of a statement, each with four transactions.\<close>

definition three_pages :: string where
  "three_pages =
     ''01/02/2024 COFFEE 4.50 995.50 01/09/2024 RENT 900.00 95.50 01/10/2024 SALARY 2000.00 2095.50 01/11/2024 GROCERY 45.00 2050.50'' @ [CHR 0x0A] @
     ''02/01/2024 COFFEE 4.50 2046.00 02/03/2024 REFUND -20.00 2066.00 02/04/2024 GAS 30.00 2036.00 02/05/2024 FOOD 12.00 2024.00'' @ [CHR 0x0A] @
     ''12/30/2023 BOOKS 15.00 1015.00 01/03/2024 CARD 10.00 1005.00 01/04/2024 TAXI 5.00 1000.50 01/05/2024 TEA 0.50 1000.00'' @ [CHR 0x0A]"

section \<open>Lemmas about the template service\<close>

lemma map_of_map_set: "map_of (map_set m k v) = (map_of m)(k \<mapsto> v)"
  by (induction m) (auto simp: fun_eq_iff)

lemma map_get_map_set: "map_get (map_set m k v) k' = (if k' = k then Some v else map_get m k')"
  by (simp add: map_get_def map_of_map_set)

lemma map_set_same: "map_get m k = Some v \<Longrightarrow> map_set m k v = m"
  by (induction m) (auto simp: map_get_def split: if_splits)

lemma updateTemplateMetrics_absent:
  "map_get (templates svc) templateId = None \<Longrightarrow> updateTemplateMetrics now svc templateId a = svc"
  by (simp add: updateTemplateMetrics_def)

lemma updateTemplateMetrics_present:
  assumes "map_get (templates svc) templateId = Some r"
  shows "templates (updateTemplateMetrics now svc templateId a) = templates svc"
    and "length (heap (updateTemplateMetrics now svc templateId a)) = length (heap svc)"
    and "r < length (heap svc) \<Longrightarrow>
         usageCount (heap (updateTemplateMetrics now svc templateId a) ! r) = usageCount (heap svc ! r) + 1"
    and "r < length (heap svc) \<Longrightarrow>
         avgAccuracy (metadata (heap (updateTemplateMetrics now svc templateId a) ! r)) =
           (avgAccuracy (metadata (heap svc ! r)) * real (usageCount (heap svc ! r)) + a) /
           real (usageCount (heap svc ! r) + 1)"
    and "r < length (heap svc) \<Longrightarrow>
         isVerified (heap (updateTemplateMetrics now svc templateId a) ! r) =
           (isVerified (heap svc ! r) \<or>
            (usageCount (heap (updateTemplateMetrics now svc templateId a) ! r) \<ge> 10 \<and>
             avgAccuracy (metadata (heap (updateTemplateMetrics now svc templateId a) ! r)) \<ge> 0.9))"
    and "a' \<noteq> r \<Longrightarrow> heap (updateTemplateMetrics now svc templateId a) ! a' = heap svc ! a'"
  using assms by (auto simp add: updateTemplateMetrics_def Let_def map_set_same)


lemma createTemplateFromAI_result:
  assumes "createTemplateFromAI RegExp_new now newId svc data originalText userId = Inr (r, svc1)"
  shows "r = length (heap svc)"
    and "length (heap svc1) = Suc (length (heap svc))"
    and "\<And>a. a < length (heap svc) \<Longrightarrow> heap svc1 ! a = heap svc ! a"
    and "map_get (templates svc1) newId = Some r"
    and "usageCount (heap svc1 ! r) = 1"
    and "avgAccuracy (metadata (heap svc1 ! r)) = 0.85"
    and "\<not> isVerified (heap svc1 ! r)"
    and "sampleStatements (metadata (heap svc1 ! r)) = Some [anonymizeStatement originalText]"
    and "dateFormats (parsing (heap svc1 ! r)) = detectDateFormats"
    and "template_id (heap svc1 ! r) = newId"
  using assms
  by (auto simp: createTemplateFromAI_def Let_def map_get_map_set nth_append
                 extractParsingPatterns_def split: sum.splits option.splits)

lemma engine_step_frame:
  assumes "a < length (heap svc)"
  shows "a < length (heap (engine_step RegExp_new svc op))"
    and "isVerified (heap svc ! a) \<Longrightarrow> isVerified (heap (engine_step RegExp_new svc op) ! a)"
    and "\<not> isVerified (heap svc ! a) \<Longrightarrow> isVerified (heap (engine_step RegExp_new svc op) ! a) \<Longrightarrow>
         (\<exists>now templateId accuracy. op = UpdateTemplateMetrics now templateId accuracy) \<and>
         usageCount (heap (engine_step RegExp_new svc op) ! a) \<ge> 10 \<and>
         avgAccuracy (metadata (heap (engine_step RegExp_new svc op) ! a)) \<ge> 0.9"
proof -
  have upd: "a < length (heap (updateTemplateMetrics now svc templateId acc)) \<and>
        (isVerified (heap svc ! a) \<longrightarrow> isVerified (heap (updateTemplateMetrics now svc templateId acc) ! a)) \<and>
        (\<not> isVerified (heap svc ! a) \<and> isVerified (heap (updateTemplateMetrics now svc templateId acc) ! a) \<longrightarrow>
           usageCount (heap (updateTemplateMetrics now svc templateId acc) ! a) \<ge> 10 \<and>
           avgAccuracy (metadata (heap (updateTemplateMetrics now svc templateId acc) ! a)) \<ge> 0.9)"
    for now templateId acc
  proof (cases "map_get (templates svc) templateId")
    case None
    then show ?thesis using assms by (simp add: updateTemplateMetrics_absent)
  next
    case (Some r)
    show ?thesis
    proof (cases "r = a")
      case True
      then show ?thesis
        using assms updateTemplateMetrics_present(2,5)[OF Some] by auto
    next
      case False
      then show ?thesis
        using assms updateTemplateMetrics_present(2,6)[OF Some] by auto
    qed
  qed
  have crt: "a < length (heap s') \<and> heap s' ! a = heap svc ! a"
    if "createTemplateFromAI RegExp_new now newId svc data originalText userId = Inr (r, s')"
    for now newId data originalText userId r s'
    using createTemplateFromAI_result(2,3)[OF that] assms by simp
  show "a < length (heap (engine_step RegExp_new svc op))"
    using assms upd crt
    by (cases op) (auto simp: loadTemplates_def fetchTemplatesFromDB_def split: sum.splits)
  show "isVerified (heap svc ! a) \<Longrightarrow> isVerified (heap (engine_step RegExp_new svc op) ! a)"
    using assms upd crt
    by (cases op) (auto simp: loadTemplates_def fetchTemplatesFromDB_def split: sum.splits)
  show "\<not> isVerified (heap svc ! a) \<Longrightarrow> isVerified (heap (engine_step RegExp_new svc op) ! a) \<Longrightarrow>
         (\<exists>now templateId accuracy. op = UpdateTemplateMetrics now templateId accuracy) \<and>
         usageCount (heap (engine_step RegExp_new svc op) ! a) \<ge> 10 \<and>
         avgAccuracy (metadata (heap (engine_step RegExp_new svc op) ! a)) \<ge> 0.9"
    using assms upd crt
    by (cases op) (auto simp: loadTemplates_def fetchTemplatesFromDB_def split: sum.splits)
qed

lemma engine_run_frame:
  "a < length (heap svc) \<Longrightarrow> isVerified (heap svc ! a) \<Longrightarrow>
   a < length (heap (engine_run RegExp_new svc ops)) \<and>
   isVerified (heap (engine_run RegExp_new svc ops) ! a)"
  unfolding engine_run_def
proof (induction ops arbitrary: svc)
  case Nil
  then show ?case by simp
next
  case (Cons op ops)
  then show ?case using engine_step_frame(1,2)[of a svc RegExp_new op] by simp
qed

lemma dateFormats_some_total:
  "set formats \<inter> set Object_prototype_keys = {} \<Longrightarrow> \<exists>d. dateFormats_some st formats = Inr d"
  by (induction formats) (auto simp: dateFormatToRegex_def)

lemma calculateTemplateMatch_value:
  "calculateTemplateMatch st t =
     (case dateFormats_some st (dateFormats (parsing t)) of
        Inl e \<Rightarrow> Inl e
      | Inr d \<Rightarrow>
          Inr (((if js_includes (toLowerCase st) (toLowerCase (bankName t)) then 30 else 0) +
                (if accountNumberPattern (parsing t) st then 20 else 0) +
                (if d then 25 else 0) +
                (if keywords_some st (creditKeywords (transactionIndicators (parsing t))) \<and>
                    keywords_some st (debitKeywords (transactionIndicators (parsing t))) then 25
                 else if keywords_some st (creditKeywords (transactionIndicators (parsing t))) \<or>
                         keywords_some st (debitKeywords (transactionIndicators (parsing t))) then 15
                 else 0)) / 100))"
  by (simp add: calculateTemplateMatch_def Let_def split: sum.splits)

lemma sort_insert_hd:
  "hd (sort_insert cmp x ys) = (if ys \<noteq> [] \<and> js_gt0 (cmp x (hd ys)) then hd ys else x)"
  by (cases ys) auto

lemma sort_insert_not_Nil: "sort_insert cmp x ys \<noteq> []"
  by (cases ys) auto

lemma js_sort_Cons: "js_sort cmp (x # xs) = sort_insert cmp x (js_sort cmp xs)"
  by (simp add: js_sort_def)

lemma js_sort_Nil_iff: "js_sort cmp xs = [] \<longleftrightarrow> xs = []"
  by (cases xs) (simp_all add: js_sort_def sort_insert_not_Nil)

lemma js_sort_desc_hd:
  "xs \<noteq> [] \<Longrightarrow>
   \<exists>pre w post. xs = pre @ w # post \<and> hd (js_sort (\<lambda>a b. Num (f b - f a)) xs) = w \<and>
     (\<forall>y\<in>set pre. f y < f w) \<and> (\<forall>y\<in>set post. f y \<le> f w)"
proof (induction xs)
  case Nil
  then show ?case by simp
next
  case (Cons x xs)
  let ?cmp = "\<lambda>a b. Num (f b - f a)"
  show ?case
  proof (cases "xs = []")
    case True
    then show ?thesis by (auto simp: js_sort_def intro!: exI[of _ "[]"])
  next
    case False
    from Cons.IH[OF False] obtain pre w post where
      d: "xs = pre @ w # post" "hd (js_sort ?cmp xs) = w"
         "\<forall>y\<in>set pre. f y < f w" "\<forall>y\<in>set post. f y \<le> f w"
      by blast
    have ne: "js_sort ?cmp xs \<noteq> []" using False by (simp add: js_sort_Nil_iff)
    show ?thesis
    proof (cases "f x < f w")
      case True
      have "hd (js_sort ?cmp (x # xs)) = w"
        using True ne d(2) by (simp add: js_sort_Cons sort_insert_hd)
      moreover have "x # xs = (x # pre) @ w # post" using d(1) by simp
      moreover have "\<forall>y\<in>set (x # pre). f y < f w" using True d(3) by simp
      ultimately show ?thesis using d(4) by blast
    next
      case False
      have "hd (js_sort ?cmp (x # xs)) = x"
        using False ne d(2) by (simp add: js_sort_Cons sort_insert_hd)
      moreover have "x # xs = [] @ x # xs" by simp
      moreover have "\<forall>y\<in>set xs. f y \<le> f x"
        using False d by auto
      ultimately show ?thesis
        by (metis empty_iff empty_set)
    qed
  qed
qed

lemma collect_candidates_value:
  assumes "\<forall>r\<in>set refs. calculateTemplateMatch st (h ! r) = Inr (sc r)"
  shows "collect_candidates h st refs =
           Inr (map (\<lambda>r. \<lparr>template = r, match_confidence = sc r,
                          matchedFeatures = getMatchedFeatures st (h ! r)\<rparr>)
                  (filter (\<lambda>r. 0.3 < sc r) refs))"
  using assms by (induction refs) auto

lemma at_index_0: "at_index xs 0 = (if xs = [] then None else Some (hd xs))"
  by (cases xs) (simp_all add: at_index_def)

lemma filter_eq_append_Cons:
  "filter P xs = pre @ w # post \<Longrightarrow>
   \<exists>us vs. xs = us @ w # vs \<and> filter P us = pre \<and> filter P vs = post \<and> P w"
proof (induction pre arbitrary: xs)
  case Nil
  then obtain us vs where "xs = us @ w # vs" "\<forall>u\<in>set us. \<not> P u" "P w" "post = filter P vs"
    by (auto simp: filter_eq_Cons_iff)
  then show ?case by (intro exI[of _ us] exI[of _ vs]) auto
next
  case (Cons p pre)
  then obtain us vs where
    x: "xs = us @ p # vs" "\<forall>u\<in>set us. \<not> P u" "P p" "pre @ w # post = filter P vs"
    by (auto simp: filter_eq_Cons_iff)
  from Cons.IH[OF x(4)[symmetric]] obtain us2 vs2 where
    y: "vs = us2 @ w # vs2" "filter P us2 = pre" "filter P vs2 = post" "P w"
    by blast
  show ?case
    using x y by (intro exI[of _ "us @ p # us2"] exI[of _ vs2]) auto
qed

lemma filter_first_max:
  assumes "filter P xs = pre @ w # post"
      and "\<forall>y\<in>set pre. g y < g w" and "\<forall>y\<in>set post. g y \<le> g w"
      and "\<forall>y\<in>set xs. \<not> P y \<longrightarrow> g y < g w"
  shows "\<exists>pre' post'. xs = pre' @ w # post' \<and> (\<forall>y\<in>set pre'. g y < (g w :: real)) \<and>
           (\<forall>y\<in>set post'. g y \<le> g w)"
proof -
  from filter_eq_append_Cons[OF assms(1)] obtain us vs where
    uv: "xs = us @ w # vs" "filter P us = pre" "filter P vs = post"
    by blast
  have 2: "g y < g w" if y: "y \<in> set us" for y
  proof (cases "P y")
    case True
    then have "y \<in> set pre" using y uv(2) by auto
    then show ?thesis using assms(2) by blast
  next
    case False
    moreover have "y \<in> set xs" using y uv(1) by auto
    ultimately show ?thesis using assms(4) by blast
  qed
  have 3: "g y \<le> g w" if y: "y \<in> set vs" for y
  proof (cases "P y")
    case True
    then have "y \<in> set post" using y uv(3) by auto
    then show ?thesis using assms(3) by blast
  next
    case False
    moreover have "y \<in> set xs" using y uv(1) by auto
    ultimately show ?thesis using assms(4) by (auto intro: less_imp_le)
  qed
  from uv(1) 2 3 show ?thesis by blast
qed

lemma findBestTemplate_char:
  assumes sc: "\<forall>r\<in>set (catalogue svc). calculateTemplateMatch st (heap svc ! r) = Inr (sc r)"
  shows "\<exists>cands res.
      collect_candidates (heap svc) st (catalogue svc) = Inr cands \<and>
      map template cands = filter (\<lambda>r. 0.3 < sc r) (catalogue svc) \<and>
      findBestTemplate svc st = Inr res \<and>
      (res = None \<longleftrightarrow> (\<forall>r\<in>set (catalogue svc). sc r \<le> 0.3)) \<and>
      (\<forall>m. res = Some m \<longrightarrow>
         match_confidence m = sc (template m) \<and> 0.3 < sc (template m) \<and>
         (\<exists>pre post. catalogue svc = pre @ template m # post \<and>
            (\<forall>r\<in>set pre. sc r < sc (template m)) \<and>
            (\<forall>r\<in>set post. sc r \<le> sc (template m))))"
proof -
  let ?mk = "\<lambda>r. \<lparr>template = r, match_confidence = sc r,
                   matchedFeatures = getMatchedFeatures st (heap svc ! r)\<rparr>"
  let ?kept = "filter (\<lambda>r. 0.3 < sc r) (catalogue svc)"
  let ?cands = "map ?mk ?kept"
  let ?cmp = "\<lambda>a b. Num (match_confidence b - match_confidence a)"
  let ?res = "at_index (js_sort ?cmp ?cands) 0"
  have cc: "collect_candidates (heap svc) st (catalogue svc) = Inr ?cands"
    using collect_candidates_value[OF sc] .
  have fb: "findBestTemplate svc st = Inr ?res"
    by (simp add: findBestTemplate_def cc)
  have tm: "map template ?cands = ?kept" by (simp add: comp_def)
  have none: "?res = None \<longleftrightarrow> (\<forall>r\<in>set (catalogue svc). sc r \<le> 0.3)"
    by (auto simp: at_index_0 js_sort_Nil_iff filter_empty_conv not_less)
  have some: "match_confidence m = sc (template m) \<and> 0.3 < sc (template m) \<and>
         (\<exists>pre post. catalogue svc = pre @ template m # post \<and>
            (\<forall>r\<in>set pre. sc r < sc (template m)) \<and>
            (\<forall>r\<in>set post. sc r \<le> sc (template m)))" if m: "?res = Some m" for m
  proof -
    have ne: "?cands \<noteq> []" using m by (auto simp: at_index_0 js_sort_Nil_iff split: if_splits)
    have hd: "hd (js_sort ?cmp ?cands) = m"
      using m by (auto simp: at_index_0 split: if_splits)
    from js_sort_desc_hd[OF ne, of match_confidence] hd obtain pre post where
      d: "?cands = pre @ m # post" "\<forall>y\<in>set pre. match_confidence y < match_confidence m"
         "\<forall>y\<in>set post. match_confidence y \<le> match_confidence m"
      by auto
    from d(1) obtain pr w po where
      k: "?kept = pr @ w # po" "pre = map ?mk pr" "m = ?mk w" "post = map ?mk po"
      by (auto simp: map_eq_append_conv map_eq_Cons_conv)
    have w: "template m = w" "match_confidence m = sc w" using k(3) by simp_all
    have "w \<in> set ?kept" using k(1) by simp
    then have gt: "0.3 < sc w" by simp
    have a: "\<forall>y\<in>set pr. sc y < sc w" using d(2) k(2) w by simp
    have b: "\<forall>y\<in>set po. sc y \<le> sc w" using d(3) k(4) w by simp
    have c: "\<forall>y\<in>set (catalogue svc). \<not> 0.3 < sc y \<longrightarrow> sc y < sc w" using gt by auto
    from filter_first_max[OF k(1) a b c] show ?thesis using w gt by simp
  qed
  have some': "\<forall>m. ?res = Some m \<longrightarrow>
         match_confidence m = sc (template m) \<and> 0.3 < sc (template m) \<and>
         (\<exists>pre post. catalogue svc = pre @ template m # post \<and>
            (\<forall>r\<in>set pre. sc r < sc (template m)) \<and>
            (\<forall>r\<in>set post. sc r \<le> sc (template m)))"
    using some by blast
  show ?thesis
    apply (rule exI[of _ ?cands])
    apply (rule exI[of _ ?res])
    apply (intro conjI)
        apply (rule cc)
       apply (rule tm)
      apply (rule fb)
     apply (rule none)
    apply (rule some')
    done
qed














section \<open>Lemmas: the calendar and date strings\<close>

lemma div_bounds:
  fixes n k :: int
  assumes "0 < k"
  shows "k * (n div k) \<le> n" and "n < k * (n div k) + k"
proof -
  have "k * (n div k) + n mod k = n" by simp
  moreover have "0 \<le> n mod k" "n mod k < k" using assms by simp_all
  ultimately show "k * (n div k) \<le> n" and "n < k * (n div k) + k" by linarith+
qed

lemma div_step:
  fixes n k :: int
  assumes "1 < k"
  shows "(n + 1) div k = n div k + (if (n + 1) mod k = 0 then 1 else 0)"
proof -
  define q r where "q = n div k" and "r = n mod k"
  have b: "0 \<le> r" "r < k" using assms by (simp_all add: r_def)
  have n: "n = k * q + r" by (simp add: q_def r_def)
  show ?thesis
  proof (cases "r + 1 = k")
    case True
    have e: "n + 1 = k * (q + 1) + 0" using n True by (simp add: algebra_simps)
    have "(n + 1) div k = q + 1" using int_div_pos_eq[OF e] assms by simp
    moreover have "(n + 1) mod k = 0" using int_mod_pos_eq[OF e] assms by simp
    ultimately show ?thesis by (simp add: q_def)
  next
    case False
    then have r: "0 \<le> r + 1" "r + 1 < k" using b by linarith+
    have e: "n + 1 = k * q + (r + 1)" using n by simp
    have "(n + 1) div k = q" using int_div_pos_eq[OF e r] .
    moreover have "(n + 1) mod k = r + 1" using int_mod_pos_eq[OF e r] .
    ultimately show ?thesis using r b by (simp add: q_def)
  qed
qed

lemma mod_shift:
  fixes y :: int
  shows "(y - 1969 + 1) mod 4 = 0 \<longleftrightarrow> y mod 4 = 0"
    and "(y - 1901 + 1) mod 100 = 0 \<longleftrightarrow> y mod 100 = 0"
    and "(y - 1601 + 1) mod 400 = 0 \<longleftrightarrow> y mod 400 = 0"
    and "y mod 100 = 0 \<Longrightarrow> y mod 4 = 0"
    and "y mod 400 = 0 \<Longrightarrow> y mod 100 = 0"
proof -
  have "y - 1969 + 1 = y + 4 * (- 492)" by simp
  then show "(y - 1969 + 1) mod 4 = 0 \<longleftrightarrow> y mod 4 = 0"
    by (simp only: mod_mult_self2)
  have "y - 1901 + 1 = y + 100 * (- 19)" by simp
  then show "(y - 1901 + 1) mod 100 = 0 \<longleftrightarrow> y mod 100 = 0"
    by (simp only: mod_mult_self2)
  have "y - 1601 + 1 = y + 400 * (- 4)" by simp
  then show "(y - 1601 + 1) mod 400 = 0 \<longleftrightarrow> y mod 400 = 0"
    by (simp only: mod_mult_self2)
  have "y mod 100 mod 4 = y mod 4" by (rule mod_mod_cancel) simp
  then show "y mod 100 = 0 \<Longrightarrow> y mod 4 = 0" by (metis mod_0)
  have "y mod 400 mod 100 = y mod 100" by (rule mod_mod_cancel) simp
  then show "y mod 400 = 0 \<Longrightarrow> y mod 100 = 0" by (metis mod_0)
qed

lemma DayFromYear_Suc:
  "DayFromYear (y + 1) = DayFromYear y + (if InLeapYear y then 366 else 365)"
proof -
  have a: "(y + 1 - 1969) div 4 = (y - 1969) div 4 + (if y mod 4 = 0 then 1 else 0)"
    using div_step[of 4 "y - 1969"] mod_shift(1)[of y] by (simp add: algebra_simps)
  have b: "(y + 1 - 1901) div 100 = (y - 1901) div 100 + (if y mod 100 = 0 then 1 else 0)"
    using div_step[of 100 "y - 1901"] mod_shift(2)[of y] by (simp add: algebra_simps)
  have c: "(y + 1 - 1601) div 400 = (y - 1601) div 400 + (if y mod 400 = 0 then 1 else 0)"
    using div_step[of 400 "y - 1601"] mod_shift(3)[of y] by (simp add: algebra_simps)
  note d = mod_shift(4,5)[of y]
  show ?thesis
  proof (cases "y mod 4 = 0")
    case True
    then show ?thesis
      unfolding DayFromYear_def InLeapYear_def a b c using d by (cases "y mod 100 = 0"; cases "y mod 400 = 0"; simp)
  next
    case False
    have n100: "y mod 100 \<noteq> 0" using False d(1) by auto
    have n400: "y mod 400 \<noteq> 0" using n100 d(2) by auto
    from False n100 n400 show ?thesis
      unfolding DayFromYear_def InLeapYear_def a b c by simp
  qed
qed


lemma YearFromDay_spec:
  "DayFromYear (YearFromDay d) \<le> d \<and> d < DayFromYear (YearFromDay d + 1)"
proof -
  define q where "q = (400 * d) div 146097"
  define y where "y = 1970 + q"
  have q: "146097 * q \<le> 400 * d" "400 * d < 146097 * q + 146097"
    unfolding q_def using div_bounds[of 146097 "400 * d"] by simp_all
  have e1: "DayFromYear (y - 1) = 365 * (q - 1) + q div 4 - (q + 68) div 100 + (q + 368) div 400"
    unfolding y_def DayFromYear_def by (simp add: add.commute)
  have e2: "DayFromYear (y + 2) = 365 * (q + 2) + (q + 3) div 4 - (q + 71) div 100 + (q + 371) div 400"
    unfolding y_def DayFromYear_def by (simp add: add.commute)
  define A B C A' B' C' where "A = q div 4" and "B = (q + 68) div 100" and "C = (q + 368) div 400"
    and "A' = (q + 3) div 4" and "B' = (q + 71) div 100" and "C' = (q + 371) div 400"
  have bA: "4 * A \<le> q" unfolding A_def using div_bounds(1)[of 4 q] by simp
  have bB: "q + 68 < 100 * B + 100" unfolding B_def using div_bounds(2)[of 100 "q + 68"] by simp
  have bC: "400 * C \<le> q + 368" unfolding C_def using div_bounds(1)[of 400 "q + 368"] by simp
  have bA': "q + 3 < 4 * A' + 4" unfolding A'_def using div_bounds(2)[of 4 "q + 3"] by simp
  have bB': "100 * B' \<le> q + 71" unfolding B'_def using div_bounds(1)[of 100 "q + 71"] by simp
  have bC': "q + 371 < 400 * C' + 400" unfolding C'_def using div_bounds(2)[of 400 "q + 371"] by simp
  have lo: "DayFromYear (y - 1) \<le> d"
  proof -
    have 1: "400 * A \<le> 100 * q" using bA by simp
    have 2: "4 * q - 128 < 400 * B" using bB by simp
    have "400 * (365 * (q - 1) + A - B + C) \<le> 400 * d"
      using q(1) bC 1 2 by simp
    then show ?thesis
      unfolding e1 A_def[symmetric] B_def[symmetric] C_def[symmetric] by simp
  qed
  have hi: "d < DayFromYear (y + 2)"
  proof -
    have 1: "100 * q - 100 < 400 * A'" using bA' by simp
    have 2: "400 * B' \<le> 4 * q + 284" using bB' by simp
    have "400 * d < 400 * (365 * (q + 2) + A' - B' + C')"
      using q(2) bC' 1 2 by simp
    then show ?thesis
      unfolding e2 A'_def[symmetric] B'_def[symmetric] C'_def[symmetric] by simp
  qed
  have s1: "DayFromYear (y - 1 + 1) = DayFromYear y" by simp
  have s2: "DayFromYear (y + 1 + 1) = DayFromYear (y + 2)" by (simp add: add.assoc)
  have yd: "1970 + 400 * d div 146097 = y" by (simp add: y_def q_def)
  show ?thesis
    unfolding YearFromDay_def Let_def yd
    using lo hi s1 s2 by auto
qed

lemma DayFromYear_mono: "y \<le> y' \<Longrightarrow> DayFromYear y \<le> DayFromYear y'"
proof (induction rule: int_ge_induct)
  case base
  then show ?case by simp
next
  case (step i)
  then show ?case using DayFromYear_Suc[of i] by (simp split: if_splits)
qed

lemma DayFromYear_strict: "y < y' \<Longrightarrow> DayFromYear y < DayFromYear y'"
  using DayFromYear_mono[of "y + 1" y'] DayFromYear_Suc[of y] by (simp split: if_splits)

lemma YearFromDay_unique:
  assumes "DayFromYear y \<le> d" "d < DayFromYear (y + 1)"
  shows "YearFromDay d = y"
proof (rule ccontr)
  assume ne: "YearFromDay d \<noteq> y"
  note s = YearFromDay_spec[of d]
  show False
  proof (cases "YearFromDay d < y")
    case True
    then have "DayFromYear (YearFromDay d + 1) \<le> DayFromYear y"
      by (intro DayFromYear_mono) simp
    then show False using s assms by linarith
  next
    case False
    then have "DayFromYear (y + 1) \<le> DayFromYear (YearFromDay d)"
      using ne by (intro DayFromYear_mono) simp
    then show False using s assms by linarith
  qed
qed


lemma month_cases:
  fixes m :: int
  assumes "0 \<le> m" "m \<le> 11"
  shows "m = 0 \<or> m = 1 \<or> m = 2 \<or> m = 3 \<or> m = 4 \<or> m = 5 \<or> m = 6 \<or> m = 7 \<or> m = 8 \<or>
         m = 9 \<or> m = 10 \<or> m = 11"
  using assms by presburger

lemma month_table:
  assumes "0 \<le> d" "d < days_before_month leap 12"
  shows "0 \<le> MonthFromDayInYear leap d \<and> MonthFromDayInYear leap d \<le> 11 \<and>
         days_before_month leap (MonthFromDayInYear leap d) \<le> d \<and>
         d < days_before_month leap (MonthFromDayInYear leap d + 1)"
  using assms
  by (cases leap) (simp_all add: MonthFromDayInYear_def days_before_month_def)

lemma month_unique:
  assumes "0 \<le> m" "m \<le> 11" "days_before_month leap m \<le> d" "d < days_before_month leap (m + 1)"
  shows "MonthFromDayInYear leap d = m"
  using month_cases[OF assms(1,2)] assms(3,4)
  by (cases leap) (auto simp: MonthFromDayInYear_def days_before_month_def)

lemma MakeDay_month:
  assumes "0 \<le> m" "m \<le> 11"
  shows "MakeDay y m dd = DayFromYear y + days_before_month (InLeapYear y) m + dd - 1"
proof -
  have "m div 12 = 0" "m mod 12 = m" using assms by simp_all
  then show ?thesis by (simp add: MakeDay_def)
qed

lemma year_length: "DayFromYear (y + 1) = DayFromYear y + days_before_month (InLeapYear y) 12"
  using DayFromYear_Suc[of y] by (simp add: days_before_month_def)

text \<open>A day has a calendar date that exists, and \<open>MakeDay\<close> of that date is the day.\<close>

lemma civil_of_day_valid:
  assumes "civil_of_day day = (y, m, dd)"
  shows "1 \<le> m \<and> m \<le> 12 \<and> 1 \<le> dd \<and> dd \<le> DaysInMonth y (m - 1) \<and> MakeDay y (m - 1) dd = day \<and>
         y = YearFromDay day"
proof -
  define dwy where "dwy = day - DayFromYear (YearFromDay day)"
  have y: "y = YearFromDay day" using assms by (simp add: civil_of_day_def Let_def)
  have r: "0 \<le> dwy" "dwy < days_before_month (InLeapYear y) 12"
    using YearFromDay_spec[of day] year_length[of y] by (simp_all add: dwy_def y)
  define m0 where "m0 = MonthFromDayInYear (InLeapYear y) dwy"
  have t: "0 \<le> m0" "m0 \<le> 11" "days_before_month (InLeapYear y) m0 \<le> dwy"
          "dwy < days_before_month (InLeapYear y) (m0 + 1)"
    using month_table[OF r] by (simp_all add: m0_def)
  have m: "m = m0 + 1" and dd: "dd = dwy - days_before_month (InLeapYear y) m0 + 1"
    using assms by (simp_all add: civil_of_day_def Let_def m0_def dwy_def y)
  have "MakeDay y m0 dd = day"
    unfolding MakeDay_month[OF t(1,2)] dd dwy_def y by simp
  then show ?thesis
    using t y by (simp add: m dd DaysInMonth_def)
qed

lemma civil_of_MakeDay:
  assumes "1 \<le> m" "m \<le> 12" "1 \<le> dd" "dd \<le> DaysInMonth y (m - 1)"
  shows "civil_of_day (MakeDay y (m - 1) dd) = (y, m, dd)"
proof -
  let ?l = "InLeapYear y"
  define day where "day = MakeDay y (m - 1) dd"
  have md: "day = DayFromYear y + days_before_month ?l (m - 1) + dd - 1"
    unfolding day_def using MakeDay_month[of "m - 1" y dd] assms by simp
  have b0: "0 \<le> days_before_month ?l (m - 1)"
    using month_cases[of "m - 1"] assms(1,2) by (auto simp: days_before_month_def)
  have b1: "days_before_month ?l m \<le> days_before_month ?l 12"
    using month_cases[of "m - 1"] assms(1,2) by (auto simp: days_before_month_def)
  have dim: "dd \<le> days_before_month ?l m - days_before_month ?l (m - 1)"
    using assms(4) by (simp add: DaysInMonth_def)
  have "DayFromYear y \<le> day" "day < DayFromYear (y + 1)"
    using md b0 b1 dim assms(3) year_length[of y] by linarith+
  then have yy: "YearFromDay day = y" by (rule YearFromDay_unique)
  have dwy: "day - DayFromYear y = days_before_month ?l (m - 1) + dd - 1"
    using md by simp
  have mm: "MonthFromDayInYear ?l (day - DayFromYear y) = m - 1"
    using assms(1,2,3) dim md by (intro month_unique) simp_all
  have "civil_of_day day = (y, m, dd)"
    by (simp only: civil_of_day_def Let_def yy mm) (simp add: dwy)
  then show ?thesis by (simp only: day_def)
qed


lemma digit_cases:
  fixes k :: nat
  assumes "k < 10"
  shows "k = 0 \<or> k = 1 \<or> k = 2 \<or> k = 3 \<or> k = 4 \<or> k = 5 \<or> k = 6 \<or> k = 7 \<or> k = 8 \<or> k = 9"
  using assms by presburger

lemma digit_char_props:
  assumes "k < 10"
  shows "is_digit (digit_char k)" and "digit_val (digit_char k) = k"
  using digit_cases[OF assms]
  by (auto simp: is_digit_def digit_char_def digit_val_def)

lemma digit_char_val: "is_digit c \<Longrightarrow> digit_char (digit_val c) = c \<and> digit_val c < 10"
  by (auto simp: is_digit_def digit_char_def digit_val_def)

lemma digits_val_snoc: "digits_val (xs @ [c]) = 10 * digits_val xs + digit_val c"
  by (simp add: digits_val_def)

lemma fixed_digits_props:
  "length (fixed_digits w n) = w"
  "list_all is_digit (fixed_digits w n)"
  by (induction w arbitrary: n) (simp_all add: digit_char_props)

lemma digits_val_fixed: "n < 10 ^ w \<Longrightarrow> digits_val (fixed_digits w n) = n"
proof (induction w arbitrary: n)
  case 0
  then show ?case by (simp add: digits_val_def)
next
  case (Suc w)
  have "n div 10 < 10 ^ w" using Suc.prems by (simp add: less_mult_imp_div_less mult.commute)
  then show ?case
    using Suc.IH[of "n div 10"] by (simp add: digits_val_snoc digit_char_props)
qed

lemma fixed_digits_val:
  "list_all is_digit ds \<Longrightarrow> fixed_digits (length ds) (digits_val ds) = ds \<and> digits_val ds < 10 ^ length ds"
proof (induction ds rule: rev_induct)
  case Nil
  then show ?case by (simp add: digits_val_def)
next
  case (snoc c ds)
  then have c: "digit_char (digit_val c) = c" "digit_val c < 10" and ih: "fixed_digits (length ds) (digits_val ds) = ds"
    "digits_val ds < 10 ^ length ds"
    using digit_char_val[of c] by simp_all
  have "(10 * digits_val ds + digit_val c) div 10 = digits_val ds"
       "(10 * digits_val ds + digit_val c) mod 10 = digit_val c"
    using c(2) by simp_all
  moreover have "10 * digits_val ds + digit_val c < 10 * 10 ^ length ds"
    using ih(2) c(2) by linarith
  ultimately show ?case
    using c ih by (simp add: digits_val_snoc)
qed

lemma year_range:
  assumes "- 100000000 \<le> day" "day \<le> 100000000"
  shows "- 271821 \<le> YearFromDay day \<and> YearFromDay day \<le> 275760"
proof -
  note s = YearFromDay_spec[of day]
  have hi: "DayFromYear 275761 = 100000110" by (simp add: DayFromYear_def)
  have lo: "DayFromYear (- 271821) = - 100000109" by (simp add: DayFromYear_def)
  have "\<not> 275761 \<le> YearFromDay day"
  proof
    assume "275761 \<le> YearFromDay day"
    then have "DayFromYear 275761 \<le> DayFromYear (YearFromDay day)" by (rule DayFromYear_mono)
    then show False using s assms hi by linarith
  qed
  moreover have "\<not> YearFromDay day + 1 \<le> - 271821"
  proof
    assume "YearFromDay day + 1 \<le> - 271821"
    then have "DayFromYear (YearFromDay day + 1) \<le> DayFromYear (- 271821)" by (rule DayFromYear_mono)
    then show False using s assms lo by linarith
  qed
  ultimately show ?thesis by linarith
qed

lemma iso_fields_short:
  assumes "length a = 4" "length b = 2" "length c = 2"
    "list_all is_digit a" "list_all is_digit b" "list_all is_digit c"
  shows "iso_fields (a @ ''-'' @ b @ ''-'' @ c) =
         Some (int (digits_val a), int (digits_val b), int (digits_val c))"
  using assms by (simp add: iso_fields_def nth_append)

lemma iso_fields_long:
  assumes "length a = 6" "length b = 2" "length c = 2"
    "list_all is_digit a" "list_all is_digit b" "list_all is_digit c"
    "sg = CHR ''+'' \<or> sg = CHR ''-''" "\<not> (sg = CHR ''-'' \<and> digits_val a = 0)"
  shows "iso_fields ([sg] @ a @ ''-'' @ b @ ''-'' @ c) =
         Some ((if sg = CHR ''-'' then - int (digits_val a) else int (digits_val a)),
               int (digits_val b), int (digits_val c))"
  using assms by (simp add: iso_fields_def nth_append)

lemma DaysInMonth_le:
  assumes "1 \<le> m" "m \<le> 12"
  shows "DaysInMonth y (m - 1) \<le> 31"
  using month_cases[of "m - 1"] assms
  by (auto simp: DaysInMonth_def days_before_month_def)

lemma iso_fields_iso_date_string:
  assumes "1 \<le> m" "m \<le> 12" "1 \<le> d" "d \<le> 31" "- 1000000 < y" "y < 1000000"
  shows "iso_fields (iso_date_string y m d) = Some (y, m, d)"
proof -
  have "nat m < 10 ^ 2" "nat d < 10 ^ 2" using assms by auto
  then have m: "digits_val (fixed_digits 2 (nat m)) = nat m"
    and d: "digits_val (fixed_digits 2 (nat d)) = nat d" by (simp_all only: digits_val_fixed)
  show ?thesis
  proof (cases "0 \<le> y \<and> y \<le> 9999")
    case True
    then have "nat y < 10 ^ 4" by auto
    then have y: "digits_val (fixed_digits 4 (nat y)) = nat y" by (rule digits_val_fixed)
    have "iso_date_string y m d = fixed_digits 4 (nat y) @ ''-'' @ fixed_digits 2 (nat m) @ ''-'' @ fixed_digits 2 (nat d)"
      using True by (simp add: iso_date_string_def)
    then show ?thesis
      using iso_fields_short[of "fixed_digits 4 (nat y)" "fixed_digits 2 (nat m)" "fixed_digits 2 (nat d)"]
        True assms y m d
      by (simp add: fixed_digits_props)
  next
    case False
    have "nat \<bar>y\<bar> < 10 ^ 6" using assms by auto
    then have y: "digits_val (fixed_digits 6 (nat \<bar>y\<bar>)) = nat \<bar>y\<bar>" by (rule digits_val_fixed)
    define sg where "sg = (if y < 0 then CHR ''-'' else CHR ''+'')"
    have "iso_date_string y m d = [sg] @ fixed_digits 6 (nat \<bar>y\<bar>) @ ''-'' @ fixed_digits 2 (nat m) @ ''-'' @ fixed_digits 2 (nat d)"
      using False by (simp add: iso_date_string_def sg_def)
    moreover have "sg = CHR ''+'' \<or> sg = CHR ''-''" by (simp add: sg_def)
    moreover have "\<not> (sg = CHR ''-'' \<and> digits_val (fixed_digits 6 (nat \<bar>y\<bar>)) = 0)"
      using False by (simp add: y sg_def)
    ultimately show ?thesis
      using iso_fields_long[of "fixed_digits 6 (nat \<bar>y\<bar>)" "fixed_digits 2 (nat m)" "fixed_digits 2 (nat d)" sg]
        assms y m d
      by (auto simp add: fixed_digits_props sg_def)
  qed
qed

lemma TimeClip_Some: "TimeClip t = Some u \<Longrightarrow> u = t \<and> \<bar>t\<bar> \<le> 8640000000000000"
  by (simp add: TimeClip_def split: if_splits)

lemma day_of_clipped:
  assumes "\<bar>t\<bar> \<le> 8640000000000000"
  shows "- 100000000 \<le> t div msPerDay \<and> t div msPerDay \<le> 100000000"
proof -
  have "- 100000000 * 86400000 \<le> t" "t \<le> 100000000 * 86400000" using assms by simp_all
  then have "(- 100000000 * 86400000) div 86400000 \<le> t div (86400000 :: int)"
    "t div 86400000 \<le> (100000000 * 86400000) div (86400000 :: int)"
    by (simp_all only: zdiv_mono1 zero_less_numeral)
  then show ?thesis by (simp add: msPerDay_def)
qed

text \<open>Reading back the date string of a valid time value gives the start of its UTC day.\<close>

lemma parse_toISODate:
  assumes "\<bar>t\<bar> \<le> 8640000000000000"
  shows "parse_iso_date (toISODate t) = Some ((t div msPerDay) * msPerDay)"
proof -
  define day where "day = t div msPerDay"
  obtain y m d where c: "civil_of_day day = (y, m, d)" by (cases "civil_of_day day") auto
  note v0 = civil_of_day_valid[OF c]
  have v: "1 \<le> m" "m \<le> 12" "1 \<le> d" "d \<le> DaysInMonth y (m - 1)" "MakeDay y (m - 1) d = day"
    using v0 by blast+
  note r = day_of_clipped[OF assms, folded day_def]
  have yr: "- 1000000 < y" "y < 1000000" using year_range[of day] r v0 by simp_all
  have d31: "d \<le> 31" using DaysInMonth_le[of m y] v by linarith
  have f: "iso_fields (iso_date_string y m d) = Some (y, m, d)"
    using v yr d31 by (intro iso_fields_iso_date_string) simp_all
  have "\<bar>day * msPerDay\<bar> \<le> 8640000000000000" using r by (simp add: msPerDay_def abs_le_iff)
  then have "TimeClip (day * msPerDay) = Some (day * msPerDay)" by (simp add: TimeClip_def)
  then show ?thesis
    using v f by (simp add: parse_iso_date_def toISODate_def c day_def[symmetric])
qed

lemma toISODate_day: "toISODate ((t div msPerDay) * msPerDay) = toISODate t"
  by (simp add: toISODate_def msPerDay_def)

lemma split10:
  assumes "length s = 10"
  shows "s = take 4 s @ [s ! 4] @ take 2 (drop 5 s) @ [s ! 7] @ drop 8 s"
proof -
  obtain a b c d e f g h i j where "s = [a, b, c, d, e, f, g, h, i, j]"
    using assms by (auto simp: eval_nat_numeral length_Suc_conv)
  then show ?thesis by simp
qed

text \<open>A date in the form \<open>YYYY-MM-DD\<close> is its own date string.\<close>

lemma toISODate_parse:
  assumes "length s = 10" "parse_iso_date s = Some t"
  shows "toISODate t = s"
proof -
  obtain y m d where f: "iso_fields s = Some (y, m, d)"
    using assms(2) by (auto simp: parse_iso_date_def split: option.splits)
  have dg: "list_all is_digit (take 4 s)" "s ! 4 = CHR ''-''" "list_all is_digit (take 2 (drop 5 s))"
    "s ! 7 = CHR ''-''" "list_all is_digit (drop 8 s)"
    and y: "y = int (digits_val (take 4 s))" and m: "m = int (digits_val (take 2 (drop 5 s)))"
    and d: "d = int (digits_val (drop 8 s))"
    using f assms(1) by (simp_all add: iso_fields_def split: if_splits)
  have v: "1 \<le> m" "m \<le> 12" "1 \<le> d" "d \<le> DaysInMonth y (m - 1)"
    and t: "t = MakeDay y (m - 1) d * msPerDay"
    using assms(2) f by (auto simp: parse_iso_date_def dest: TimeClip_Some split: if_splits)
  have ys: "fixed_digits 4 (nat y) = take 4 s" "nat y < 10 ^ 4"
    using fixed_digits_val[OF dg(1)] assms(1) by (simp_all add: y)
  have ms: "fixed_digits 2 (nat m) = take 2 (drop 5 s)"
    using fixed_digits_val[OF dg(3)] assms(1) by (simp add: m)
  have ds: "fixed_digits 2 (nat d) = drop 8 s"
    using fixed_digits_val[OF dg(5)] assms(1) by (simp add: d)
  have y9: "0 \<le> y \<and> y \<le> 9999" using ys(2) by (simp add: y)
  have "toISODate t = iso_date_string y m d"
    using civil_of_MakeDay[OF v] by (simp add: toISODate_def t msPerDay_def)
  also have "\<dots> = take 4 s @ ''-'' @ take 2 (drop 5 s) @ ''-'' @ drop 8 s"
    using y9 by (simp add: iso_date_string_def ys ms ds)
  also have "\<dots> = s" using split10[OF assms(1)] dg(2,4) by simp
  finally show ?thesis .
qed


section \<open>Further lemmas: well-formed catalogues, the examples evaluated\<close>

lemma map_set_values: "set (map_values (map_set m k v)) \<subseteq> insert v (set (map_values m))"
proof (induction m)
  case Nil
  then show ?case by (simp add: map_values_def)
next
  case (Cons p m)
  obtain k' v' where p: "p = (k', v')" by (cases p)
  show ?case using Cons unfolding p by (auto simp: map_values_def)
qed

lemma engine_step_catalogue:
  assumes "\<forall>r\<in>set (catalogue svc). r < length (heap svc)"
  shows "\<forall>r\<in>set (catalogue (engine_step RegExp_new svc op)). r < length (heap (engine_step RegExp_new svc op))"
proof (cases op)
  case (CreateTemplateFromAI now newId data originalText userId)
  show ?thesis
  proof (cases "createTemplateFromAI RegExp_new now newId svc data originalText userId")
    case (Inl e)
    then show ?thesis using assms CreateTemplateFromAI by simp
  next
    case (Inr p)
    obtain r s' where p: "p = (r, s')" by (cases p)
    have "catalogue s' = map_values (map_set (templates svc) newId (length (heap svc)))"
         "length (heap s') = Suc (length (heap svc))"
      using Inr p
      by (auto simp: createTemplateFromAI_def Let_def catalogue_def split: sum.splits)
    then show ?thesis
      using assms CreateTemplateFromAI Inr p map_set_values[of "templates svc" newId "length (heap svc)"]
      by (auto simp: catalogue_def less_Suc_eq)
  qed
next
  case (UpdateTemplateMetrics now templateId accuracy)
  show ?thesis
  proof (cases "map_get (templates svc) templateId")
    case None
    then show ?thesis using assms UpdateTemplateMetrics by (simp add: updateTemplateMetrics_absent)
  next
    case (Some r)
    then show ?thesis
      using assms UpdateTemplateMetrics updateTemplateMetrics_present(1,2)[OF Some]
      by (simp add: catalogue_def)
  qed
qed (use assms in \<open>simp_all add: loadTemplates_def fetchTemplatesFromDB_def\<close>)

lemma catalogue_in_heap:
  "\<forall>r\<in>set (catalogue (engine_run RegExp_new new_TemplateService ops)).
      r < length (heap (engine_run RegExp_new new_TemplateService ops))"
proof -
  have "\<forall>r\<in>set (catalogue svc). r < length (heap svc) \<Longrightarrow>
        \<forall>r\<in>set (catalogue (foldl (engine_step RegExp_new) svc ops)).
           r < length (heap (foldl (engine_step RegExp_new) svc ops))" for svc
  proof (induction ops arbitrary: svc)
    case Nil
    then show ?case by simp
  next
    case (Cons op ops)
    show ?case using Cons.IH[OF engine_step_catalogue[OF Cons.prems]] by simp
  qed
  then show ?thesis
    by (simp add: engine_run_def new_TemplateService_def catalogue_def map_values_def)
qed


lemma example_service_templates:
  "templates example_service = [(''template_1700000000000_k3j9x2m1q'', 0)]"
  by (simp add: example_service_def createTemplateFromAI_def extractParsingPatterns_def
      example_RegExp_new_def example_statement_def replace_digits_def rx_one_def
      rep_counts_def is_digit_def Let_def new_TemplateService_def)

lemma used8_eval:
  "length (heap example_service_used8) = 1"
  "\<not> isVerified (heap example_service_used8 ! 0)"
  "usageCount (heap example_service_used8 ! 0) = 9"
  by code_simp+

lemma used9_eval:
  "length (heap example_service_used9) = 1"
  "isVerified (heap example_service_used9 ! 0)"
  "isVerified (heap (engine_step example_RegExp_new example_service_used8
     (UpdateTemplateMetrics 1700000000009 ''template_1700000000000_k3j9x2m1q'' 1)) ! 0)"
  "usageCount (heap (engine_step example_RegExp_new example_service_used8
     (UpdateTemplateMetrics 1700000000009 ''template_1700000000000_k3j9x2m1q'' 1)) ! 0) = 10"
  "avgAccuracy (metadata (heap (engine_step example_RegExp_new example_service_used8
     (UpdateTemplateMetrics 1700000000009 ''template_1700000000000_k3j9x2m1q'' 1)) ! 0)) = 0.985"
  "avgAccuracy (metadata (heap (engine_run example_RegExp_new example_service_used9
      [UpdateTemplateMetrics 1700000000010 ''template_1700000000000_k3j9x2m1q'' 0]) ! 0)) < 0.9"
  by code_simp+

lemma score_bounds:
  fixes b a d hc hd :: bool
  defines "v \<equiv> ((if b then 30 else 0) + (if a then 20 else 0) + (if d then 25 else 0) +
                    (if hc \<and> hd then 25 else if hc \<or> hd then 15 else 0)) / (100::real)"
  shows "0 \<le> v" "v \<le> 1" "\<not> b \<and> \<not> a \<and> \<not> d \<and> \<not> hc \<and> \<not> hd \<longrightarrow> v = 0"
        "b \<and> a \<and> d \<and> hc \<and> hd \<longrightarrow> v = 1"
  unfolding v_def by (cases b; cases a; cases d; cases hc; cases hd; simp)+

lemma example_service2_catalogue: "catalogue example_service2 = [0, 1]"
  by code_simp

section \<open>The claims about the template service\<close>



text \<open>
  \<^bold>\<open>C2\<close> (verification is one-way). Let \<open>a\<close> be a template object of the store (every
  catalogued template is one: \<open>catalogue_in_heap\<close>). Any one operation of the engine
  keeps it in the store and keeps \<open>isVerified\<close> if it was set; if \<open>isVerified\<close> turns
  from false to true, the operation is a call of \<open>updateTemplateMetrics\<close> after which
  \<open>usageCount \<ge> 10\<close> and \<open>avgAccuracy \<ge> 0.9\<close>. Once set, \<open>isVerified\<close> stays set
  through every sequence of operations.
\<close>

theorem verification_monotone:
  assumes "a < length (heap svc)"
  shows "(let svc' = engine_step RegExp_new svc op
          in a < length (heap svc') \<and>
             (isVerified (heap svc ! a) \<longrightarrow> isVerified (heap svc' ! a)) \<and>
             (\<not> isVerified (heap svc ! a) \<and> isVerified (heap svc' ! a) \<longrightarrow>
                (\<exists>now templateId accuracy. op = UpdateTemplateMetrics now templateId accuracy) \<and>
                10 \<le> usageCount (heap svc' ! a) \<and>
                0.9 \<le> avgAccuracy (metadata (heap svc' ! a)))) \<and>
         (isVerified (heap svc ! a) \<longrightarrow>
            (\<forall>ops. a < length (heap (engine_run RegExp_new svc ops)) \<and>
                   isVerified (heap (engine_run RegExp_new svc ops) ! a)))"
  using engine_step_frame[OF assms, of RegExp_new op] engine_run_frame[OF assms, of RegExp_new]
  by (auto simp: Let_def)

text \<open>The example template becomes verified at its ninth use (count 10, average 0.985)
  and stays verified when a tenth use at accuracy 0 takes the average below 0.9.\<close>

theorem verification_monotone_witness:
  "(0::nat) < length (heap example_service_used8) \<and>
   \<not> isVerified (heap example_service_used8 ! 0) \<and>
   isVerified (heap (engine_step example_RegExp_new example_service_used8
     (UpdateTemplateMetrics 1700000000009 ''template_1700000000000_k3j9x2m1q'' 1)) ! 0) \<and>
   10 \<le> usageCount (heap (engine_step example_RegExp_new example_service_used8
     (UpdateTemplateMetrics 1700000000009 ''template_1700000000000_k3j9x2m1q'' 1)) ! 0) \<and>
   0.9 \<le> avgAccuracy (metadata (heap (engine_step example_RegExp_new example_service_used8
     (UpdateTemplateMetrics 1700000000009 ''template_1700000000000_k3j9x2m1q'' 1)) ! 0)) \<and>
   (0::nat) < length (heap example_service_used9) \<and>
   isVerified (heap example_service_used9 ! 0) \<and>
   avgAccuracy (metadata (heap (engine_run example_RegExp_new example_service_used9
      [UpdateTemplateMetrics 1700000000010 ''template_1700000000000_k3j9x2m1q'' 0]) ! 0)) < 0.9 \<and>
   isVerified (heap (engine_run example_RegExp_new example_service_used9
      [UpdateTemplateMetrics 1700000000010 ''template_1700000000000_k3j9x2m1q'' 0]) ! 0)"
proof -
  have h8: "(0::nat) < length (heap example_service_used8)" by (simp add: used8_eval)
  have h9: "(0::nat) < length (heap example_service_used9)" by (simp add: used9_eval)
  show ?thesis
    using verification_monotone[OF h8, of example_RegExp_new
            "UpdateTemplateMetrics 1700000000009 ''template_1700000000000_k3j9x2m1q'' 1"]
          verification_monotone[OF h9, of example_RegExp_new LoadTemplates]
          used8_eval used9_eval
    by (simp add: Let_def)
qed

text \<open>
  \<^bold>\<open>C4\<close> (template score). \<open>calculateTemplateMatch\<close> returns a score unless a
  configured date format is a name inherited from \<open>Object.prototype\<close>; it does so for
  every template made by \<open>createTemplateFromAI\<close>. The score is
  \<open>(30 b + 20 a + 25 d + k) / 100\<close>, where \<open>b\<close> is the bank-name signal, \<open>a\<close> the
  account-number pattern, \<open>d\<close> the date formats and \<open>k\<close> is 25 when credit and debit
  keywords are both present, 15 for one of them, 0 for none. It lies in \<open>[0, 1]\<close>, is 0
  when no signal is present and 1 when all are.
\<close>

theorem template_score:
  "(let b = js_includes (toLowerCase st) (toLowerCase (bankName t));
        a = accountNumberPattern (parsing t) st;
        hc = keywords_some st (creditKeywords (transactionIndicators (parsing t)));
        hd = keywords_some st (debitKeywords (transactionIndicators (parsing t)))
    in (set (dateFormats (parsing t)) \<inter> set Object_prototype_keys = {} \<longrightarrow>
          (\<exists>s. calculateTemplateMatch st t = Inr s)) \<and>
       (\<forall>s. calculateTemplateMatch st t = Inr s \<longrightarrow>
          (\<exists>d. dateFormats_some st (dateFormats (parsing t)) = Inr d \<and>
               s = ((if b then 30 else 0) + (if a then 20 else 0) + (if d then 25 else 0) +
                    (if hc \<and> hd then 25 else if hc \<or> hd then 15 else 0)) / 100 \<and>
               0 \<le> s \<and> s \<le> 1 \<and>
               (\<not> b \<and> \<not> a \<and> \<not> d \<and> \<not> hc \<and> \<not> hd \<longrightarrow> s = 0) \<and>
               (b \<and> a \<and> d \<and> hc \<and> hd \<longrightarrow> s = 1)))) \<and>
   (\<forall>RegExp_new now newId svc data originalText userId r svc1.
      createTemplateFromAI RegExp_new now newId svc data originalText userId = Inr (r, svc1) \<longrightarrow>
      (\<exists>s. calculateTemplateMatch st (heap svc1 ! r) = Inr s))"
proof -
  have total: "\<exists>s. calculateTemplateMatch st t' = Inr s"
    if "set (dateFormats (parsing t')) \<inter> set Object_prototype_keys = {}" for t'
  proof -
    from dateFormats_some_total[OF that, of st]
    obtain d where d: "dateFormats_some st (dateFormats (parsing t')) = Inr d" by blast
    show ?thesis by (simp only: calculateTemplateMatch_value d sum.case) blast
  qed
  have created: "\<exists>s. calculateTemplateMatch st (heap svc1 ! r) = Inr s"
    if "createTemplateFromAI RegExp_new now newId svc data originalText userId = Inr (r, svc1)"
    for RegExp_new now newId svc data originalText userId r svc1
  proof (rule total)
    show "set (dateFormats (parsing (heap svc1 ! r))) \<inter> set Object_prototype_keys = {}"
      unfolding createTemplateFromAI_result(9)[OF that]
      by (simp add: detectDateFormats_def Object_prototype_keys_def)
  qed
  let ?b = "js_includes (toLowerCase st) (toLowerCase (bankName t))"
  let ?a = "accountNumberPattern (parsing t) st"
  let ?hc = "keywords_some st (creditKeywords (transactionIndicators (parsing t)))"
  let ?hd = "keywords_some st (debitKeywords (transactionIndicators (parsing t)))"
  let ?v = "\<lambda>d. ((if ?b then 30 else 0) + (if ?a then 20 else 0) + (if d then 25 else 0) +
                    (if ?hc \<and> ?hd then 25 else if ?hc \<or> ?hd then 15 else 0)) / (100::real)"
  have val: "\<exists>d. dateFormats_some st (dateFormats (parsing t)) = Inr d \<and> s = ?v d \<and>
               0 \<le> s \<and> s \<le> 1 \<and>
               (\<not> ?b \<and> \<not> ?a \<and> \<not> d \<and> \<not> ?hc \<and> \<not> ?hd \<longrightarrow> s = 0) \<and>
               (?b \<and> ?a \<and> d \<and> ?hc \<and> ?hd \<longrightarrow> s = 1)"
    if c: "calculateTemplateMatch st t = Inr s" for s
  proof (cases "dateFormats_some st (dateFormats (parsing t))")
    case (Inl e)
    then show ?thesis using c by (simp only: calculateTemplateMatch_value sum.case) simp
  next
    case (Inr d)
    have s: "s = ?v d"
      using c by (simp only: calculateTemplateMatch_value Inr sum.case sum.inject)
    show ?thesis
      unfolding s
      using score_bounds[of ?b ?a d ?hc ?hd] Inr by blast
  qed
  show ?thesis
    unfolding Let_def using total[of t] val created by blast
qed

text \<open>The example template on a text with every signal, with none, and with bank name,
  date and a credit keyword.\<close>

theorem template_score_witness:
  "set (dateFormats (parsing (heap example_service ! 0))) \<inter> set Object_prototype_keys = {} \<and>
   calculateTemplateMatch ''Acme Bank account 12345678 on 01/15/2024: deposit 10.00, payment 5.00''
     (heap example_service ! 0) = Inr 1 \<and>
   calculateTemplateMatch ''hello'' (heap example_service ! 0) = Inr 0 \<and>
   calculateTemplateMatch ''ACME BANK: deposit of 01/15/2024'' (heap example_service ! 0) = Inr 0.7"
proof -
  have e: "set (dateFormats (parsing (heap example_service ! 0))) \<inter> set Object_prototype_keys = {}"
     "calculateTemplateMatch ''Acme Bank account 12345678 on 01/15/2024: deposit 10.00, payment 5.00''
     (heap example_service ! 0) = Inr 1"
     "calculateTemplateMatch ''hello'' (heap example_service ! 0) = Inr 0"
     "calculateTemplateMatch ''ACME BANK: deposit of 01/15/2024'' (heap example_service ! 0) = Inr 0.7"
    by code_simp+
  show ?thesis
    using template_score[of "''hello''" "heap example_service ! 0"] e by simp
qed

text \<open>
  \<^bold>\<open>C5\<close>, amended (best template). When every catalogued template has a score \<open>sc r\<close>,
  \<open>findBestTemplate\<close> keeps exactly the candidates with \<open>sc r > 0.3\<close>, in catalogue
  order. It returns none exactly when every score is at most 0.3. A returned match has
  a score above 0.3 that no catalogued template exceeds, and every template registered
  before it scores strictly less: among equal top scores the earliest wins. In
  particular, of two templates \<open>a\<close>, \<open>b\<close> registered in this order with equal scores
  above 0.3, \<open>a\<close> is returned.
\<close>

theorem findBestTemplate_best_first:
  assumes sc: "\<forall>r\<in>set (catalogue svc). calculateTemplateMatch st (heap svc ! r) = Inr (sc r)"
  shows "\<exists>cands res.
      collect_candidates (heap svc) st (catalogue svc) = Inr cands \<and>
      map template cands = filter (\<lambda>r. 0.3 < sc r) (catalogue svc) \<and>
      findBestTemplate svc st = Inr res \<and>
      (res = None \<longleftrightarrow> (\<forall>r\<in>set (catalogue svc). sc r \<le> 0.3)) \<and>
      (\<forall>m. res = Some m \<longrightarrow>
         match_confidence m = sc (template m) \<and> 0.3 < sc (template m) \<and>
         (\<exists>pre post. catalogue svc = pre @ template m # post \<and>
            (\<forall>r\<in>set pre. sc r < sc (template m)) \<and>
            (\<forall>r\<in>set post. sc r \<le> sc (template m)))) \<and>
      (\<forall>a b. catalogue svc = [a, b] \<and> sc a = sc b \<and> 0.3 < sc a \<longrightarrow>
         (\<exists>m. res = Some m \<and> template m = a))"
proof -
  from findBestTemplate_char[OF sc] obtain cands res where
    c: "collect_candidates (heap svc) st (catalogue svc) = Inr cands"
       "map template cands = filter (\<lambda>r. 0.3 < sc r) (catalogue svc)"
       "findBestTemplate svc st = Inr res"
       "res = None \<longleftrightarrow> (\<forall>r\<in>set (catalogue svc). sc r \<le> 0.3)"
       "\<forall>m. res = Some m \<longrightarrow>
         match_confidence m = sc (template m) \<and> 0.3 < sc (template m) \<and>
         (\<exists>pre post. catalogue svc = pre @ template m # post \<and>
            (\<forall>r\<in>set pre. sc r < sc (template m)) \<and>
            (\<forall>r\<in>set post. sc r \<le> sc (template m)))"
    by blast
  have two: "\<exists>m. res = Some m \<and> template m = a"
    if ab: "catalogue svc = [a, b]" "sc a = sc b" "0.3 < sc a" for a b
  proof -
    have "res \<noteq> None" using c(4) ab by auto
    then obtain m where m: "res = Some m" by blast
    with c(5) obtain pre post where
      d: "catalogue svc = pre @ template m # post" "\<forall>r\<in>set pre. sc r < sc (template m)"
      by blast
    have "template m = a"
    proof (cases pre)
      case Nil
      then show ?thesis using d(1) ab(1) by simp
    next
      case (Cons p ps)
      then have p: "p = a" "ps @ template m # post = [b]" using d(1) ab(1) by simp_all
      then have "template m = b" by (cases ps) auto
      then show ?thesis using d(2) Cons p(1) ab(2) by simp
    qed
    then show ?thesis using m by blast
  qed
  show ?thesis
    apply (rule exI[of _ cands])
    apply (rule exI[of _ res])
    using c two by blast
qed

text \<open>Two templates of the same bank score 0.7 each; the first registered is returned.\<close>

theorem findBestTemplate_best_first_witness:
  "catalogue example_service2 = [0, 1] \<and>
   calculateTemplateMatch ''ACME BANK: deposit of 01/15/2024'' (heap example_service2 ! 0) = Inr 0.7 \<and>
   calculateTemplateMatch ''ACME BANK: deposit of 01/15/2024'' (heap example_service2 ! 1) = Inr 0.7 \<and>
   (\<exists>m. findBestTemplate example_service2 ''ACME BANK: deposit of 01/15/2024'' = Inr (Some m) \<and>
        template m = 0 \<and> match_confidence m = 0.7)"
proof -
  have e: "calculateTemplateMatch ''ACME BANK: deposit of 01/15/2024'' (heap example_service2 ! 0) = Inr 0.7"
          "calculateTemplateMatch ''ACME BANK: deposit of 01/15/2024'' (heap example_service2 ! 1) = Inr 0.7"
    by code_simp+
  have h: "\<forall>r\<in>set (catalogue example_service2).
             calculateTemplateMatch ''ACME BANK: deposit of 01/15/2024'' (heap example_service2 ! r)
               = Inr ((\<lambda>r. 0.7) r)"
    using e by (simp add: example_service2_catalogue)
  show ?thesis
    using findBestTemplate_best_first[OF h]
  proof (elim exE conjE)
    fix cands res
    assume r: "findBestTemplate example_service2 ''ACME BANK: deposit of 01/15/2024'' = Inr res"
      and two: "\<forall>a b. catalogue example_service2 = [a, b] \<and> (0.7::real) = 0.7 \<and> (0.3::real) < 0.7 \<longrightarrow>
                  (\<exists>m. res = Some m \<and> template m = a)"
      and conf: "\<forall>m. res = Some m \<longrightarrow>
         match_confidence m = 0.7 \<and> (0.3::real) < 0.7 \<and>
         (\<exists>pre post. catalogue example_service2 = pre @ template m # post \<and>
            (\<forall>r\<in>set pre. (0.7::real) < 0.7) \<and>
            (\<forall>r\<in>set post. (0.7::real) \<le> 0.7))"
    from two example_service2_catalogue obtain m where m: "res = Some m" "template m = 0"
      by auto
    with conf have "match_confidence m = 0.7" by blast
    with m r e example_service2_catalogue show ?thesis by auto
  qed
qed

text \<open>The claim as stated ("discards the candidates below 0.3") fails at the threshold:
  a template matching by bank name only scores exactly 0.3, which is not below 0.3, and
  is discarded all the same (the guard is \<open>confidence > 0.3\<close>).\<close>

theorem findBestTemplate_threshold_counterexample:
  "catalogue example_service = [0] \<and>
   calculateTemplateMatch ''ACME BANK statement'' (heap example_service ! 0) = Inr 0.3 \<and>
   \<not> ((0.3::real) < 0.3) \<and>
   findBestTemplate example_service ''ACME BANK statement'' = Inr None"
  by code_simp

text \<open>
  \<^bold>\<open>C9\<close> (unknown id). \<open>updateTemplateMetrics\<close> with an id that is no key of the
  catalogue returns the service as it was: the store (so every template's
  \<open>usageCount\<close>, \<open>avgAccuracy\<close>, \<open>isVerified\<close> and \<open>updatedAt\<close>), the map and the list of
  persistence calls are unchanged. The function has no exception to raise.
\<close>

theorem updateTemplateMetrics_unknown_id:
  assumes "templateId \<notin> fst ` set (templates svc)"
  shows "updateTemplateMetrics now svc templateId accuracy = svc"
proof -
  have "map_get (templates svc) templateId = None"
    using assms by (simp add: map_get_def map_of_eq_None_iff)
  then show ?thesis by (rule updateTemplateMetrics_absent)
qed

text \<open>The example service and an id it does not hold.\<close>

theorem updateTemplateMetrics_unknown_id_witness:
  "''template_0_missing'' \<notin> fst ` set (templates example_service) \<and>
   updateTemplateMetrics 1700000000001 example_service ''template_0_missing'' 0.95 = example_service"
proof -
  have h: "''template_0_missing'' \<notin> fst ` set (templates example_service)"
    by (simp add: example_service_templates)
  show ?thesis using h updateTemplateMetrics_unknown_id[OF h] by simp
qed



section \<open>The claim about the feedback hook\<close>

text \<open>
  \<^bold>\<open>C8\<close> (feedback hook). \<open>handleCategoryFeedback\<close> always returns a list and never
  raises: the empty list when the AI call fails (an exception of the service, or a
  response without text) or when \<open>JSON.parse\<close> rejects the response, and otherwise the
  list parsed from the response.
\<close>

theorem handleCategoryFeedback_never_throws:
  fixes generateContent :: "string \<Rightarrow> js_error + string option"
    and JSON_parse :: "string \<Rightarrow> js_error + string list"
    and description correctCategory :: string
  shows
  "(\<exists>keywords. handleCategoryFeedback generateContent JSON_parse description correctCategory = Inr keywords) \<and>
   (\<forall>e. callAI generateContent (retrain_prompt description correctCategory) = Inl e \<longrightarrow>
        handleCategoryFeedback generateContent JSON_parse description correctCategory = Inr []) \<and>
   (\<forall>response e. callAI generateContent (retrain_prompt description correctCategory) = Inr response \<and>
        JSON_parse response = Inl e \<longrightarrow>
        handleCategoryFeedback generateContent JSON_parse description correctCategory = Inr []) \<and>
   (\<forall>response keywords. callAI generateContent (retrain_prompt description correctCategory) = Inr response \<and>
        JSON_parse response = Inr keywords \<longrightarrow>
        handleCategoryFeedback generateContent JSON_parse description correctCategory = Inr keywords)"
  by (auto simp: handleCategoryFeedback_def retrainCategoryFromFeedback_def split: sum.splits)

text \<open>A response that parses, one that does not, a failing service, a response without text.\<close>

theorem handleCategoryFeedback_never_throws_witness:
  "handleCategoryFeedback (\<lambda>prompt. Inr (Some ''[\"coffee\", \"cafe\"]''))
      (\<lambda>response. if response = ''[\"coffee\", \"cafe\"]'' then Inr [''coffee'', ''cafe''] else Inl SyntaxError)
      ''STARBUCKS COFFEE'' ''Food & Dining'' = Inr [''coffee'', ''cafe''] \<and>
   handleCategoryFeedback (\<lambda>prompt. Inr (Some ''Sure! Here are some keywords.''))
      (\<lambda>response. if response = ''[\"coffee\", \"cafe\"]'' then Inr [''coffee'', ''cafe''] else Inl SyntaxError)
      ''STARBUCKS COFFEE'' ''Food & Dining'' = Inr [] \<and>
   handleCategoryFeedback (\<lambda>prompt. Inl (Error ''quota exceeded''))
      (\<lambda>response. Inr [response]) ''STARBUCKS COFFEE'' ''Food & Dining'' = Inr [] \<and>
   handleCategoryFeedback (\<lambda>prompt. Inr None)
      (\<lambda>response. Inr [response]) ''STARBUCKS COFFEE'' ''Food & Dining'' = Inr []"
  using handleCategoryFeedback_never_throws[of "\<lambda>prompt. Inl (Error ''quota exceeded'')"
          "\<lambda>response. Inr [response]" "''STARBUCKS COFFEE''" "''Food & Dining''"]
  by (simp add: handleCategoryFeedback_def retrainCategoryFromFeedback_def callAI_def)

end
